theory Spec2Isabelle
  imports Main "HOL-Library.Sublist"
begin

section \<open>The improvement pipeline of \<^verbatim>\<open>mejora_codigo.py\<close>\<close>

text \<open>
  The script loads \<^verbatim>\<open>codigo.py\<close>, runs the tests, asks a completion service three times
  for a rewrite, stages the rewrite under \<^verbatim>\<open>temp/\<close>, logs a diff, runs two linters, moves
  the staged file over \<^verbatim>\<open>codigo.py\<close>, runs the tests again, tries to restore the original
  when they fail, writes \<^verbatim>\<open>nuevas_funciones/resta.py\<close> and lists the project.

  Everything the script does is an effect on the outside world, so the model threads a
  \<open>world\<close> (the files, the log, and a trace of the calls that left the process) through
  every function, and reads every answer of the outside (the file system's refusals, the
  child processes, the completion service, the diff library) from an \<open>env\<close>.
  Python's \<^verbatim>\<open>str\<close> is modelled as \<open>string\<close>, the UTF-8 bytes of the text, and a file
  holds bytes: reading in text mode translates the newlines, writing on a POSIX system
  stores the text as it is.
\<close>

subsection \<open>Data\<close>

text \<open>An exception caught by \<^verbatim>\<open>except Exception as e\<close>: its class name and \<^verbatim>\<open>str(e)\<close>.\<close>

datatype exn = Exn string string

fun str_exn :: "exn \<Rightarrow> string" where
  "str_exn (Exn cls m) = m"

text \<open>\<^verbatim>\<open>subprocess.CompletedProcess\<close>, as far as the script reads it.\<close>

record completed =
  returncode :: int
  stdout :: string
  stderr :: string

text \<open>A diff of \<^verbatim>\<open>diff_match_patch\<close>: the tuple (operation, text), operation -1, 0 or 1.\<close>

type_synonym diff_entry = "int \<times> string"

datatype level = INFO | WARNING | ERROR

text \<open>The object given to the logger: a formatted text, or (line 208) the diff tuple itself.\<close>

datatype msg = Text string | Obj diff_entry

text \<open>What \<^verbatim>\<open>open(ruta, 'w')\<close> followed by \<^verbatim>\<open>write\<close> does: it succeeds, or \<^verbatim>\<open>open\<close> raises and
  the file is untouched, or \<^verbatim>\<open>write\<close> raises after the file was truncated, leaving a part.\<close>

datatype write_result = Written | OpenFailed exn | WriteFailed string exn

text \<open>What \<^verbatim>\<open>shutil.move\<close> of a file onto a file path does. It renames, and when the rename
  fails it copies and then unlinks the source. So it succeeds; or it raises with nothing
  changed; or the copy raises after the destination was opened, leaving a part there; or
  the unlink raises after the copy, leaving the source beside the complete destination.\<close>

datatype move_result = Moved | MoveFailed exn | CopyFailed string exn | UnlinkFailed exn

datatype event =
    EvRead string
  | EvMakedirs string
  | EvWrite string string
  | EvMove string string
  | EvRun "string list"
  | EvCompletion string

type_synonym files = "string \<rightharpoonup> string"

record world =
  files :: files
  log_records :: "(level \<times> msg) list"
  events :: "event list"

record env =
  read_error :: "string \<Rightarrow> exn option"
  mkdir_error :: "string \<Rightarrow> exn option"
  write_outcome :: "string \<Rightarrow> string \<Rightarrow> write_result"
  move_outcome :: "string \<Rightarrow> string \<Rightarrow> move_result"
  subprocess_run :: "string list \<Rightarrow> files \<Rightarrow> exn + completed"
  completion_create :: "nat \<Rightarrow> string \<Rightarrow> exn + string list"
  diff_main :: "string \<Rightarrow> string \<Rightarrow> diff_entry list"
  diff_cleanupSemantic :: "diff_entry list \<Rightarrow> diff_entry list"
  os_walk :: "string \<Rightarrow> files \<Rightarrow> string list \<times> exn option"

text \<open>
  The trace \<open>events\<close> records each call as it is made, whatever its outcome: \<open>EvWrite\<close>
  is the call of \<^verbatim>\<open>open(ruta, 'w')\<close> with the content that is to be written.

  The environment of a run:
  \<^item> \<open>read_error\<close>, \<open>mkdir_error\<close>, \<open>write_outcome\<close>, \<open>move_outcome\<close>: what the operating system
    refuses (permissions, a full disk), by path;
  \<^item> \<open>subprocess_run\<close>: the child process started for a command on the current files; \<open>Inl\<close>
    when it cannot be started;
  \<^item> \<open>completion_create\<close>: the answer of the completion service to the i-th request of the
    run and its prompt: the texts of the returned choices, or the exception raised;
  \<^item> \<open>diff_main\<close>, \<open>diff_cleanupSemantic\<close>: the two functions of the \<^verbatim>\<open>diff_match_patch\<close>
    library, which is not part of the repository;
  \<^item> \<open>os_walk\<close>: the paths that the walk of a directory yields, in the order in which they
    are logged, and the exception that ends the walk, if any.
\<close>

subsection \<open>Logging and the trace\<close>

definition logging :: "level \<Rightarrow> msg \<Rightarrow> world \<Rightarrow> world" where
  "logging l m w = w\<lparr>log_records := log_records w @ [(l, m)]\<rparr>"

definition emit :: "event \<Rightarrow> world \<Rightarrow> world" where
  "emit e w = w\<lparr>events := events w @ [e]\<rparr>"

subsection \<open>Python's string functions\<close>

definition o_acute :: string where
  "o_acute = [CHR 0xC3, CHR 0xB3]"

definition quote :: string where
  "quote = [CHR 0x27]"

definition nl :: string where
  "nl = [CHR 0x0A]"

text \<open>\<^verbatim>\<open>str(n)\<close> for a natural number.\<close>

fun str_nat :: "nat \<Rightarrow> string" where
  "str_nat n = (if n < 10 then [char_of (48 + n)]
                else str_nat (n div 10) @ [char_of (48 + n mod 10)])"

declare str_nat.simps [simp del]

text \<open>\<^verbatim>\<open>repr\<close> of a list of strings that need no escaping (the three command lines do not).\<close>

fun join :: "string \<Rightarrow> string list \<Rightarrow> string" where
  "join sep [] = []"
| "join sep [x] = x"
| "join sep (x # y # ys) = x @ sep @ join sep (y # ys)"

definition repr_list :: "string list \<Rightarrow> string" where
  "repr_list xs = ''['' @ join '', '' (map (\<lambda>x. quote @ x @ quote) xs) @ '']''"

text \<open>
  \<^verbatim>\<open>str.strip()\<close> removes the whitespace characters of Unicode from both ends; these are
  their UTF-8 encodings.
\<close>

definition whitespace :: "string list" where
  "whitespace =
    [[CHR 0x09], [CHR 0x0A], [CHR 0x0B], [CHR 0x0C], [CHR 0x0D],
     [CHR 0x1C], [CHR 0x1D], [CHR 0x1E], [CHR 0x1F], [CHR 0x20],
     [CHR 0xC2, CHR 0x85], [CHR 0xC2, CHR 0xA0],
     [CHR 0xE1, CHR 0x9A, CHR 0x80],
     [CHR 0xE2, CHR 0x80, CHR 0x80], [CHR 0xE2, CHR 0x80, CHR 0x81],
     [CHR 0xE2, CHR 0x80, CHR 0x82], [CHR 0xE2, CHR 0x80, CHR 0x83],
     [CHR 0xE2, CHR 0x80, CHR 0x84], [CHR 0xE2, CHR 0x80, CHR 0x85],
     [CHR 0xE2, CHR 0x80, CHR 0x86], [CHR 0xE2, CHR 0x80, CHR 0x87],
     [CHR 0xE2, CHR 0x80, CHR 0x88], [CHR 0xE2, CHR 0x80, CHR 0x89],
     [CHR 0xE2, CHR 0x80, CHR 0x8A],
     [CHR 0xE2, CHR 0x80, CHR 0xA8], [CHR 0xE2, CHR 0x80, CHR 0xA9],
     [CHR 0xE2, CHR 0x80, CHR 0xAF],
     [CHR 0xE2, CHR 0x81, CHR 0x9F],
     [CHR 0xE3, CHR 0x80, CHR 0x80]]"

function strip_prefixes :: "string list \<Rightarrow> string \<Rightarrow> string" where
  "strip_prefixes ps s =
     (case List.find (\<lambda>p. p \<noteq> [] \<and> prefix p s) ps of
        Some p \<Rightarrow> strip_prefixes ps (drop (length p) s)
      | None \<Rightarrow> s)"
  by pat_completeness auto
termination
  by (relation "measure (\<lambda>(ps, s). length s)") (auto simp: find_Some_iff prefix_def)

declare strip_prefixes.simps [simp del]

definition lstrip :: "string \<Rightarrow> string" where
  "lstrip s = strip_prefixes whitespace s"

definition rstrip :: "string \<Rightarrow> string" where
  "rstrip s = rev (strip_prefixes (map rev whitespace) (rev s))"

definition strip :: "string \<Rightarrow> string" where
  "strip s = rstrip (lstrip s)"

text \<open>
  What reading in text mode does to the bytes of a file (\<^verbatim>\<open>open(ruta, 'r')\<close>, universal
  newlines): a carriage return followed by a line feed, and a carriage return alone, become
  one line feed. Writing in text mode on a POSIX system leaves the text as it is.
\<close>

fun universal_newlines :: "string \<Rightarrow> string" where
  "universal_newlines [] = []"
| "universal_newlines [c] = (if c = CHR 0x0D then [CHR 0x0A] else [c])"
| "universal_newlines (c # d # cs) =
     (if c = CHR 0x0D \<and> d = CHR 0x0A then CHR 0x0A # universal_newlines cs
      else if c = CHR 0x0D then CHR 0x0A # universal_newlines (d # cs)
      else c # universal_newlines (d # cs))"

text \<open>\<^verbatim>\<open>os.path.dirname\<close> of \<^verbatim>\<open>posixpath\<close>: the part up to the last slash, without trailing
  slashes unless it consists of slashes only.\<close>

definition dirname :: "string \<Rightarrow> string" where
  "dirname p =
     (let head = rev (dropWhile (\<lambda>c. c \<noteq> CHR ''/'') (rev p))
      in if head \<noteq> [] \<and> head \<noteq> replicate (length head) (CHR ''/'')
         then rev (dropWhile (\<lambda>c. c = CHR ''/'') (rev head))
         else head)"

subsection \<open>The file system calls\<close>

text \<open>\<^verbatim>\<open>open(ruta, 'r')\<close> and \<^verbatim>\<open>read()\<close>: the text of the file, its newlines translated.\<close>

definition open_read :: "env \<Rightarrow> string \<Rightarrow> world \<Rightarrow> (exn + string) \<times> world" where
  "open_read env ruta w =
     (let w1 = emit (EvRead ruta) w in
      case files w ruta of
        None \<Rightarrow> (Inl (Exn ''FileNotFoundError''
                        (''[Errno 2] No such file or directory: '' @ quote @ ruta @ quote)), w1)
      | Some contenido \<Rightarrow>
          (case read_error env ruta of
             Some e \<Rightarrow> (Inl e, w1)
           | None \<Rightarrow> (Inr (universal_newlines contenido), w1)))"

text \<open>
  \<^verbatim>\<open>os.makedirs(name, exist_ok=True)\<close>. For the empty name \<^verbatim>\<open>mkdir('')\<close> raises
  \<^verbatim>\<open>FileNotFoundError\<close>, and \<^verbatim>\<open>exist_ok\<close> does not cover it because the empty name is not
  a directory. The directory tree is not part of \<open>files\<close>.
\<close>

definition makedirs :: "env \<Rightarrow> string \<Rightarrow> world \<Rightarrow> exn option \<times> world" where
  "makedirs env name w =
     (let w1 = emit (EvMakedirs name) w in
      if name = [] then
        (Some (Exn ''FileNotFoundError''
                 (''[Errno 2] No such file or directory: '' @ quote @ quote)), w1)
      else (mkdir_error env name, w1))"

text \<open>\<^verbatim>\<open>with open(ruta, 'w') as file: file.write(contenido)\<close>.\<close>

definition open_write :: "env \<Rightarrow> string \<Rightarrow> string \<Rightarrow> world \<Rightarrow> exn option \<times> world" where
  "open_write env ruta contenido w =
     (let w1 = emit (EvWrite ruta contenido) w in
      case write_outcome env ruta contenido of
        Written \<Rightarrow> (None, w1\<lparr>files := (files w1)(ruta \<mapsto> contenido)\<rparr>)
      | OpenFailed e \<Rightarrow> (Some e, w1)
      | WriteFailed part e \<Rightarrow> (Some e, w1\<lparr>files := (files w1)(ruta \<mapsto> part)\<rparr>))"

text \<open>\<^verbatim>\<open>shutil.move(src, dst)\<close> between two file paths; without the source it raises
  before anything is written.\<close>

definition shutil_move :: "env \<Rightarrow> string \<Rightarrow> string \<Rightarrow> world \<Rightarrow> exn option \<times> world" where
  "shutil_move env src dst w =
     (let w1 = emit (EvMove src dst) w in
      case files w src of
        None \<Rightarrow> (Some (Exn ''FileNotFoundError''
                         (''[Errno 2] No such file or directory: '' @ quote @ src @ quote)), w1)
      | Some contenido \<Rightarrow>
          (case move_outcome env src dst of
             Moved \<Rightarrow> (None, w1\<lparr>files := (files w1)(src := None, dst \<mapsto> contenido)\<rparr>)
           | MoveFailed e \<Rightarrow> (Some e, w1)
           | CopyFailed part e \<Rightarrow> (Some e, w1\<lparr>files := (files w1)(dst \<mapsto> part)\<rparr>)
           | UnlinkFailed e \<Rightarrow> (Some e, w1\<lparr>files := (files w1)(dst \<mapsto> contenido)\<rparr>)))"

subsection \<open>The functions of the script\<close>

definition ejecutar_comando :: "env \<Rightarrow> string list \<Rightarrow> world \<Rightarrow> completed option \<times> world" where
  "ejecutar_comando env comando w =
     (let w1 = emit (EvRun comando) w in
      case subprocess_run env comando (files w) of
        Inr resultado \<Rightarrow> (Some resultado, logging INFO (Text (stdout resultado)) w1)
      | Inl e \<Rightarrow>
          (None, logging ERROR
             (Text (''Error al ejecutar el comando '' @ repr_list comando @ '': '' @ str_exn e)) w1))"

definition ejecutar_pruebas :: "env \<Rightarrow> world \<Rightarrow> bool \<times> world" where
  "ejecutar_pruebas env w =
     (case ejecutar_comando env [''pytest'', ''tests.py''] w of
        (Some resultado, w1) \<Rightarrow> (if returncode resultado = 0 then (True, w1) else (False, w1))
      | (None, w1) \<Rightarrow> (False, w1))"

definition prompt :: "string \<Rightarrow> string" where
  "prompt codigo =
     ''Mejora el siguiente c'' @ o_acute @ ''digo:'' @ nl @ nl @ codigo @ nl @ nl"

text \<open>The body of the loop of \<open>mejorar_codigo\<close> for the loop variable \<open>i\<close>: the new
  \<open>codigo\<close>, or \<open>None\<close> when the \<^verbatim>\<open>except\<close> branch returns.\<close>

definition mejorar_iteracion :: "env \<Rightarrow> nat \<Rightarrow> string \<Rightarrow> world \<Rightarrow> string option \<times> world" where
  "mejorar_iteracion env i codigo w =
     (let w1 = emit (EvCompletion (prompt codigo)) w in
      case completion_create env i (prompt codigo) of
        Inl e \<Rightarrow>
          (None, logging ERROR
             (Text (''Error al generar mejoras en el c'' @ o_acute @ ''digo: '' @ str_exn e)) w1)
      | Inr [] \<Rightarrow>
          (None, logging ERROR
             (Text (''Error al generar mejoras en el c'' @ o_acute @ ''digo: ''
                    @ ''list index out of range'')) w1)
      | Inr (choice # rest) \<Rightarrow>
          (let sugerencia = strip choice
           in (Some sugerencia,
               logging INFO
                 (Text (''Iteraci'' @ o_acute @ ''n '' @ str_nat (i + 1) @ '' - C''
                        @ o_acute @ ''digo mejorado:'' @ nl @ sugerencia)) w1)))"

text \<open>The loop: \<open>i\<close> is the loop variable, \<open>k\<close> the number of iterations left.\<close>

fun mejorar_loop :: "env \<Rightarrow> nat \<Rightarrow> nat \<Rightarrow> string \<Rightarrow> world \<Rightarrow> string option \<times> world" where
  "mejorar_loop env i 0 codigo w = (Some codigo, w)"
| "mejorar_loop env i (Suc k) codigo w =
     (case mejorar_iteracion env i codigo w of
        (None, w1) \<Rightarrow> (None, w1)
      | (Some sugerencia, w1) \<Rightarrow> mejorar_loop env (Suc i) k sugerencia w1)"

text \<open>\<^verbatim>\<open>range(iteraciones)\<close> is empty for a negative number.\<close>

definition mejorar_codigo :: "env \<Rightarrow> string \<Rightarrow> int \<Rightarrow> world \<Rightarrow> string option \<times> world" where
  "mejorar_codigo env codigo iteraciones w = mejorar_loop env 0 (nat iteraciones) codigo w"

definition calcular_diferencia :: "env \<Rightarrow> string \<Rightarrow> string \<Rightarrow> diff_entry list" where
  "calcular_diferencia env original mejorado =
     diff_cleanupSemantic env (diff_main env original mejorado)"

definition crear_archivo :: "env \<Rightarrow> string \<Rightarrow> string \<Rightarrow> world \<Rightarrow> world" where
  "crear_archivo env ruta contenido w =
     (case makedirs env (dirname ruta) w of
        (Some e, w1) \<Rightarrow>
          logging ERROR (Text (''Error al crear el archivo '' @ ruta @ '': '' @ str_exn e)) w1
      | (None, w1) \<Rightarrow>
          (case open_write env ruta contenido w1 of
             (Some e, w2) \<Rightarrow>
               logging ERROR (Text (''Error al crear el archivo '' @ ruta @ '': '' @ str_exn e)) w2
           | (None, w2) \<Rightarrow> logging INFO (Text (''Archivo creado: '' @ ruta)) w2))"

definition listar_archivos :: "env \<Rightarrow> string \<Rightarrow> world \<Rightarrow> world" where
  "listar_archivos env directorio w =
     (case os_walk env directorio (files w) of
        (paths, r) \<Rightarrow>
          (let w1 = fold (\<lambda>p. logging INFO (Text p)) paths w in
           case r of
             None \<Rightarrow> w1
           | Some e \<Rightarrow>
               logging ERROR
                 (Text (''Error al listar archivos en el directorio '' @ directorio @ '': ''
                        @ str_exn e)) w1))"

text \<open>\<open>cargar_codigo\<close> returns the text, or leaves the process: \<open>Inl\<close> is the exit status.\<close>

definition cargar_codigo :: "env \<Rightarrow> string \<Rightarrow> world \<Rightarrow> (int + string) \<times> world" where
  "cargar_codigo env ruta w =
     (case open_read env ruta w of
        (Inr contenido, w1) \<Rightarrow> (Inr contenido, w1)
      | (Inl e, w1) \<Rightarrow>
          (Inl 1, logging ERROR
                    (Text (''Error al leer el archivo '' @ ruta @ '': '' @ str_exn e)) w1))"

definition guardar_codigo :: "env \<Rightarrow> string \<Rightarrow> string \<Rightarrow> world \<Rightarrow> world" where
  "guardar_codigo env ruta codigo w = crear_archivo env ruta codigo w"

definition analizar_codigo :: "env \<Rightarrow> string \<Rightarrow> world \<Rightarrow> world" where
  "analizar_codigo env ruta w =
     (case ejecutar_comando env [''pylint'', ruta] w of
        (Some resultado, w1) \<Rightarrow>
          (if returncode resultado \<noteq> 0
           then logging WARNING (Text (''Issues found by pylint:'' @ nl @ stdout resultado)) w1
           else w1)
      | (None, w1) \<Rightarrow> w1)"

definition verificar_estilo_codigo :: "env \<Rightarrow> string \<Rightarrow> world \<Rightarrow> world" where
  "verificar_estilo_codigo env ruta w =
     (case ejecutar_comando env [''flake8'', ruta] w of
        (Some resultado, w1) \<Rightarrow>
          (if returncode resultado \<noteq> 0
           then logging WARNING (Text (''Issues found by flake8:'' @ nl @ stdout resultado)) w1
           else w1)
      | (None, w1) \<Rightarrow> w1)"

subsection \<open>The driver\<close>

definition canonical :: string where
  "canonical = ''codigo.py''"

definition staged :: string where
  "staged = ''temp/codigo_mejorado.py''"

definition resta_py :: string where
  "resta_py = ''nuevas_funciones/resta.py''"

definition nuevo_codigo :: string where
  "nuevo_codigo = nl @ ''def resta(a, b):'' @ nl @ ''    return a - b'' @ nl"

text \<open>
  \<open>main\<close>, lines 184 to 219: from the load to the move of the staged file over
  \<^verbatim>\<open>codigo.py\<close>. \<open>Inl\<close> is a call of \<^verbatim>\<open>exit\<close> with its status; \<open>Inr\<close> carries
  \<open>codigo_original\<close> and \<open>codigo_mejorado\<close> to the rest of \<open>main\<close>. The test
  \<^verbatim>\<open>not codigo_mejorado\<close> holds for \<^verbatim>\<open>None\<close> and for the empty string.
\<close>

definition main_until_swap :: "env \<Rightarrow> world \<Rightarrow> (int \<times> world) + (string \<times> string \<times> world)" where
  "main_until_swap env w =
     (case cargar_codigo env canonical w of
        (Inl status, w1) \<Rightarrow> Inl (status, w1)
      | (Inr codigo_original, w1) \<Rightarrow>
          (case ejecutar_pruebas env w1 of
             (False, w2) \<Rightarrow>
               Inl (1, logging INFO
                         (Text (''El c'' @ o_acute @ ''digo original no pasa todas las pruebas.'')) w2)
           | (True, w2) \<Rightarrow>
               (let w3 = logging INFO
                           (Text (''El c'' @ o_acute @ ''digo original pasa todas las pruebas.'')) w2
                in case mejorar_codigo env codigo_original 3 w3 of
                  (r, w4) \<Rightarrow>
                    (let salir =
                           Inl (1, logging INFO
                                     (Text (''No se pudo generar mejoras en el c'' @ o_acute
                                            @ ''digo.'')) w4)
                     in case r of
                       None \<Rightarrow> salir
                     | Some codigo_mejorado \<Rightarrow>
                         (if codigo_mejorado = [] then salir
                          else
                            (let w5 = guardar_codigo env staged codigo_mejorado w4;
                                 diferencia =
                                   calcular_diferencia env codigo_original codigo_mejorado;
                                 w6 = logging INFO
                                        (Text (''Diferencias entre el c'' @ o_acute
                                               @ ''digo original y el mejorado:'')) w5;
                                 w7 = fold (\<lambda>d. logging INFO (Obj d)) diferencia w6;
                                 w8 = analizar_codigo env staged w7;
                                 w9 = verificar_estilo_codigo env staged w8
                             in case shutil_move env staged canonical w9 of
                               (Some e, w10) \<Rightarrow>
                                 Inl (1, logging ERROR
                                           (Text (''Error al renombrar el archivo temporal: ''
                                                  @ str_exn e)) w10)
                             | (None, w10) \<Rightarrow>
                                 Inr (codigo_original, codigo_mejorado, w10)))))))"

text \<open>\<open>main\<close>, lines 221 to 238: the second test run, the restore, the new file, the listing.\<close>

definition main_after_swap :: "env \<Rightarrow> string \<Rightarrow> world \<Rightarrow> world" where
  "main_after_swap env codigo_original w =
     (let w2 =
            (case ejecutar_pruebas env w of
               (True, w1) \<Rightarrow>
                 logging INFO
                   (Text (''El c'' @ o_acute
                          @ ''digo mejorado pasa todas las pruebas y ha sido aplicado.'')) w1
             | (False, w1) \<Rightarrow>
                 guardar_codigo env canonical codigo_original
                   (logging INFO
                      (Text (''El c'' @ o_acute @ ''digo mejorado no pasa todas las pruebas, ''
                             @ ''se mantiene el c'' @ o_acute @ ''digo original.'')) w1));
          w3 = guardar_codigo env resta_py nuevo_codigo w2;
          w4 = logging INFO (Text ''Archivos en el proyecto:'') w3
      in listar_archivos env ''.'' w4)"

text \<open>The whole of \<open>main\<close>: the exit status of the process and the world it leaves.\<close>

definition main :: "env \<Rightarrow> world \<Rightarrow> int \<times> world" where
  "main env w =
     (case main_until_swap env w of
        Inl (status, w1) \<Rightarrow> (status, w1)
      | Inr (codigo_original, codigo_mejorado, w1) \<Rightarrow>
          (0, main_after_swap env codigo_original w1))"

subsection \<open>Readings of the environment and of the specification\<close>

text \<open>The verdict of the Test Gate on the files as they are: pytest started and returned 0.\<close>

definition test_gate :: "env \<Rightarrow> files \<Rightarrow> bool" where
  "test_gate env fs =
     (case subprocess_run env [''pytest'', ''tests.py''] fs of
        Inr resultado \<Rightarrow> returncode resultado = 0
      | Inl e \<Rightarrow> False)"

text \<open>
  The Improvement Engine as the specification words it. One round-trip, the i-th of the run,
  on the current text: the request is the instruction with the current text embedded, the
  first candidate of the answer is taken and stripped; any failure gives no result.
\<close>

definition round_trip :: "env \<Rightarrow> nat \<Rightarrow> string \<Rightarrow> string option" where
  "round_trip env i codigo =
     (case completion_create env i
             (''Mejora el siguiente c'' @ [CHR 0xC3, CHR 0xB3] @ ''digo:'' @ [CHR 0x0A, CHR 0x0A]
              @ codigo @ [CHR 0x0A, CHR 0x0A]) of
        Inr (choice # rest) \<Rightarrow> Some (strip choice)
      | Inr [] \<Rightarrow> None
      | Inl e \<Rightarrow> None)"

text \<open>n sequential round-trips as a fold: the output of a round is the input of the next,
  and no result stays no result.\<close>

definition round_trips :: "env \<Rightarrow> nat \<Rightarrow> string \<Rightarrow> string option" where
  "round_trips env n codigo =
     fold (\<lambda>i current. Option.bind current (round_trip env i)) [0..<n] (Some codigo)"

text \<open>The requests of the rounds \<open>0, \<dots>, m - 1\<close> as they appear in the trace: the i-th
  embeds the text that the rounds before it produced.\<close>

definition requests :: "env \<Rightarrow> nat \<Rightarrow> string \<Rightarrow> event list" where
  "requests env m codigo =
     map (\<lambda>i. EvCompletion
                 (''Mejora el siguiente c'' @ [CHR 0xC3, CHR 0xB3] @ ''digo:''
                  @ [CHR 0x0A, CHR 0x0A] @ the (round_trips env i codigo) @ [CHR 0x0A, CHR 0x0A]))
         [0..<m]"

text \<open>Several runs of the pipeline, one after the other, each in its own environment.\<close>

fun pipeline_runs :: "env list \<Rightarrow> world \<Rightarrow> int list \<times> world" where
  "pipeline_runs [] w = ([], w)"
| "pipeline_runs (env # envs) w =
     (case main env w of
        (status, w1) \<Rightarrow> (case pipeline_runs envs w1 of (sts, w2) \<Rightarrow> (status # sts, w2)))"

text \<open>The two texts that a list of diffs stands for: the entries that are not insertions
  (operation 1) give the source, those that are not deletions (operation -1) the
  destination.\<close>

definition diff_text1 :: "diff_entry list \<Rightarrow> string" where
  "diff_text1 ds = concat (map snd (filter (\<lambda>d. fst d \<noteq> 1) ds))"

definition diff_text2 :: "diff_entry list \<Rightarrow> string" where
  "diff_text2 ds = concat (map snd (filter (\<lambda>d. fst d \<noteq> - 1) ds))"

text \<open>The commands of the two Static Advisors.\<close>

definition is_linter :: "string list \<Rightarrow> bool" where
  "is_linter comando =
     (case comando of
        [] \<Rightarrow> False
      | prog # args \<Rightarrow> prog = ''pylint'' \<or> prog = ''flake8'')"

text \<open>Two worlds with the same files and the same trace: they differ in the log at most.\<close>

definition same_effects :: "world \<Rightarrow> world \<Rightarrow> bool" where
  "same_effects w w' = (files w = files w' \<and> events w = events w')"

subsection \<open>Example runs\<close>

text \<open>
  The scenario of the specification: \<^verbatim>\<open>codigo.py\<close> defines \<^verbatim>\<open>suma\<close>, the tests pass on it
  and on a rewrite that still adds, and fail on anything else. The examples differ in what
  the completion service answers.
\<close>

definition original_text :: string where
  "original_text = ''def suma(a, b):'' @ nl @ ''    return a + b'' @ nl"

text \<open>The same file with the line ends of another system.\<close>

definition original_crlf :: string where
  "original_crlf =
     ''def suma(a, b):'' @ [CHR 0x0D, CHR 0x0A] @ ''    return a + b'' @ [CHR 0x0D, CHR 0x0A]"

definition improved_text :: string where
  "improved_text = ''def suma(a, b):'' @ nl @ ''    return b + a''"

definition broken_text :: string where
  "broken_text = ''def suma(a, b) return''"

definition pytest_on :: "files \<Rightarrow> exn + completed" where
  "pytest_on fs =
     (if fs ''codigo.py'' = Some original_text \<or> fs ''codigo.py'' = Some original_crlf
         \<or> fs ''codigo.py'' = Some improved_text
      then Inr \<lparr>returncode = 0, stdout = ''1 passed'', stderr = []\<rparr>
      else Inr \<lparr>returncode = 1, stdout = ''1 failed'', stderr = []\<rparr>)"

text \<open>Child processes: pytest as above; every other command succeeds in silence.\<close>

definition quiet_run :: "string list \<Rightarrow> files \<Rightarrow> exn + completed" where
  "quiet_run comando fs =
     (if comando = [''pytest'', ''tests.py''] then pytest_on fs
      else Inr \<lparr>returncode = 0, stdout = [], stderr = []\<rparr>)"

definition example_env :: "(nat \<Rightarrow> string \<Rightarrow> exn + string list) \<Rightarrow> env" where
  "example_env service =
     \<lparr>read_error = (\<lambda>ruta. None),
      mkdir_error = (\<lambda>name. None),
      write_outcome = (\<lambda>ruta contenido. Written),
      move_outcome = (\<lambda>src dst. Moved),
      subprocess_run = quiet_run,
      completion_create = service,
      diff_main = (\<lambda>a b. [(-1, a), (1, b)]),
      diff_cleanupSemantic = (\<lambda>ds. ds),
      os_walk = (\<lambda>directorio fs. ([], None))\<rparr>"

text \<open>A service whose first candidate is the rewrite between white space of several kinds
  (blank, tab, no-break space; line separator, carriage return, line feed); one whose first
  candidate does not parse; one that is down at the second request; one that answers with
  blanks; one that fails on every prompt that holds a carriage return.\<close>

definition padded_text :: string where
  "padded_text =
     '' '' @ [CHR 0x09, CHR 0xC2, CHR 0xA0] @ improved_text
     @ [CHR 0xE2, CHR 0x80, CHR 0xA8, CHR 0x0D, CHR 0x0A]"

definition service_good :: "nat \<Rightarrow> string \<Rightarrow> exn + string list" where
  "service_good i p = Inr [padded_text, broken_text]"

definition service_lf :: "nat \<Rightarrow> string \<Rightarrow> exn + string list" where
  "service_lf i p =
     (if CHR 0x0D \<in> set p then Inl (Exn ''InvalidRequestError'' ''carriage return in prompt'')
      else Inr [improved_text])"

definition service_broken :: "nat \<Rightarrow> string \<Rightarrow> exn + string list" where
  "service_broken i p = Inr [broken_text, improved_text]"

definition service_down :: "nat \<Rightarrow> string \<Rightarrow> exn + string list" where
  "service_down i p =
     (if i = 1 then Inl (Exn ''APIConnectionError'' ''Error communicating with OpenAI'')
      else Inr [improved_text])"

definition service_blank :: "nat \<Rightarrow> string \<Rightarrow> exn + string list" where
  "service_blank i p = Inr [''   '']"

text \<open>The linters of \<open>quiet_run\<close> find nothing; here pylint finds an issue and flake8
  does not start.\<close>

definition noisy_linters :: "string list \<Rightarrow> files \<Rightarrow> exn + completed" where
  "noisy_linters comando fs =
     (if comando = [''pylint'', ''temp/codigo_mejorado.py'']
      then Inr \<lparr>returncode = 16, stdout = ''C0114: Missing module docstring'', stderr = []\<rparr>
      else if comando = [''flake8'', ''temp/codigo_mejorado.py'']
      then Inl (Exn ''FileNotFoundError'' ''[Errno 2] No such file or directory: flake8'')
      else quiet_run comando fs)"

definition world0 :: world where
  "world0 = \<lparr>files = [''codigo.py'' \<mapsto> original_text], log_records = [], events = []\<rparr>"

definition world_crlf :: world where
  "world_crlf = \<lparr>files = [''codigo.py'' \<mapsto> original_crlf], log_records = [], events = []\<rparr>"

definition world_failing :: world where
  "world_failing = \<lparr>files = [''codigo.py'' \<mapsto> broken_text], log_records = [], events = []\<rparr>"

section \<open>Properties\<close>

subsection \<open>The log and the trace are written, never read\<close>

lemma files_logging [simp]: "files (logging l m w) = files w"
  and events_logging [simp]: "events (logging l m w) = events w"
  and log_logging [simp]: "log_records (logging l m w) = log_records w @ [(l, m)]"
  by (simp_all add: logging_def)

lemma files_emit [simp]: "files (emit e w) = files w"
  and events_emit [simp]: "events (emit e w) = events w @ [e]"
  and log_emit [simp]: "log_records (emit e w) = log_records w"
  by (simp_all add: emit_def)

lemma files_fold_logging [simp]: "files (fold (\<lambda>x. logging l (f x)) xs w) = files w"
  by (induction xs arbitrary: w) simp_all

lemma events_fold_logging [simp]: "events (fold (\<lambda>x. logging l (f x)) xs w) = events w"
  by (induction xs arbitrary: w) simp_all

lemma dirname_canonical: "dirname canonical = []"
  by (simp add: dirname_def canonical_def)

lemma dirname_staged: "dirname staged = ''temp''"
  by (simp add: dirname_def staged_def)

lemma dirname_resta_py: "dirname resta_py = ''nuevas_funciones''"
  by (simp add: dirname_def resta_py_def)

lemma paths_distinct:
  "staged \<noteq> canonical" "resta_py \<noteq> canonical" "resta_py \<noteq> staged"
  "canonical \<noteq> staged" "canonical \<noteq> resta_py" "staged \<noteq> resta_py"
  by (simp_all add: staged_def canonical_def resta_py_def)



subsection \<open>Stripping\<close>

lemma strip_prefixes_decomp:
  "\<exists>ws. set ws \<subseteq> set ps \<and> s = concat ws @ strip_prefixes ps s"
proof (induction ps s rule: strip_prefixes.induct)
  case (1 ps s)
  show ?case
  proof (cases "List.find (\<lambda>p. p \<noteq> [] \<and> prefix p s) ps")
    case None
    then have "strip_prefixes ps s = s"
      by (simp add: strip_prefixes.simps [of ps s])
    then have "set [] \<subseteq> set ps \<and> s = concat [] @ strip_prefixes ps s"
      by simp
    then show ?thesis by blast
  next
    case (Some p)
    then have p: "p \<in> set ps" "prefix p s"
      by (auto simp: find_Some_iff)
    from Some have u: "strip_prefixes ps s = strip_prefixes ps (drop (length p) s)"
      by (simp add: strip_prefixes.simps [of ps s])
    from "1.IH" [OF Some] obtain ws where ws: "set ws \<subseteq> set ps"
      "drop (length p) s = concat ws @ strip_prefixes ps (drop (length p) s)"
      by blast
    from p(2) have "s = p @ drop (length p) s"
      by (auto simp: prefix_def)
    with ws(2) u have "s = concat (p # ws) @ strip_prefixes ps s"
      by simp
    moreover from p(1) ws(1) have "set (p # ws) \<subseteq> set ps" by simp
    ultimately show ?thesis by blast
  qed
qed

lemma strip_prefixes_no_prefix:
  "p \<in> set ps \<Longrightarrow> p \<noteq> [] \<Longrightarrow> \<not> prefix p (strip_prefixes ps s)"
proof (induction ps s rule: strip_prefixes.induct)
  case (1 ps s)
  show ?case
  proof (cases "List.find (\<lambda>p. p \<noteq> [] \<and> prefix p s) ps")
    case None
    then have "strip_prefixes ps s = s"
      by (simp add: strip_prefixes.simps [of ps s])
    with None "1.prems" show ?thesis
      by (auto simp: find_None_iff)
  next
    case (Some q)
    then have "strip_prefixes ps s = strip_prefixes ps (drop (length q) s)"
      by (simp add: strip_prefixes.simps [of ps s])
    with "1.IH" [OF Some "1.prems"] show ?thesis by simp
  qed
qed

lemma whitespace_nonempty: "p \<in> set whitespace \<Longrightarrow> p \<noteq> []"
  by (auto simp: whitespace_def)

text \<open>\<open>strip\<close> removes white space from both ends and nothing else, and what is left
  neither starts nor ends with white space.\<close>

lemma strip_spec:
  "\<exists>ws ws'. set ws \<subseteq> set whitespace \<and> set ws' \<subseteq> set whitespace \<and>
      s = concat ws @ strip s @ concat ws' \<and>
      (\<forall>p \<in> set whitespace. \<not> prefix p (strip s) \<and> \<not> suffix p (strip s))"
proof -
  obtain ws where ws: "set ws \<subseteq> set whitespace" "s = concat ws @ lstrip s"
    using strip_prefixes_decomp [of whitespace s] by (auto simp: lstrip_def)
  obtain rs where rs: "set rs \<subseteq> set (map rev whitespace)"
    "rev (lstrip s) = concat rs @ strip_prefixes (map rev whitespace) (rev (lstrip s))"
    using strip_prefixes_decomp [of "map rev whitespace" "rev (lstrip s)"] by blast
  define ws' where "ws' = map rev (rev rs)"
  from rs(2) have "lstrip s = rev (concat rs @ rev (strip s))"
    by (simp add: strip_def rstrip_def)
  then have l: "lstrip s = strip s @ concat ws'"
    by (simp add: ws'_def rev_concat)
  from rs(1) have w': "set ws' \<subseteq> set whitespace"
    by (auto simp: ws'_def)
  have no: "\<not> prefix p (strip s) \<and> \<not> suffix p (strip s)" if p: "p \<in> set whitespace" for p
  proof
    from p have ne: "p \<noteq> []" by (rule whitespace_nonempty)
    from strip_prefixes_no_prefix [OF p ne, of s] have "\<not> prefix p (lstrip s)"
      by (simp add: lstrip_def)
    with l show "\<not> prefix p (strip s)"
      by (auto simp: prefix_def)
    from p ne have "rev p \<in> set (map rev whitespace)" "rev p \<noteq> []" by simp_all
    from strip_prefixes_no_prefix [OF this, of "rev (lstrip s)"]
    show "\<not> suffix p (strip s)"
      by (simp add: strip_def rstrip_def suffix_to_prefix)
  qed
  from ws l have "s = concat ws @ strip s @ concat ws'" by simp
  with ws(1) w' no show ?thesis by blast
qed

subsection \<open>ejecutar_comando and its callers\<close>

lemma files_ejecutar_comando [simp]: "files (snd (ejecutar_comando env c w)) = files w"
  by (simp add: ejecutar_comando_def Let_def split: sum.splits)

lemma events_ejecutar_comando [simp]:
  "events (snd (ejecutar_comando env c w)) = events w @ [EvRun c]"
  by (simp add: ejecutar_comando_def Let_def split: sum.splits)

lemma fst_ejecutar_pruebas: "fst (ejecutar_pruebas env w) = test_gate env (files w)"
  by (simp add: ejecutar_pruebas_def ejecutar_comando_def test_gate_def split: sum.splits)

lemma files_ejecutar_pruebas [simp]: "files (snd (ejecutar_pruebas env w)) = files w"
  by (simp add: ejecutar_pruebas_def ejecutar_comando_def Let_def split: sum.splits)

lemma events_ejecutar_pruebas [simp]:
  "events (snd (ejecutar_pruebas env w)) = events w @ [EvRun [''pytest'', ''tests.py'']]"
  by (simp add: ejecutar_pruebas_def ejecutar_comando_def Let_def split: sum.splits)

lemma ejecutar_pruebas_cases:
  "ejecutar_pruebas env w = (b, w1) \<Longrightarrow>
   b = test_gate env (files w) \<and> files w1 = files w \<and>
   events w1 = events w @ [EvRun [''pytest'', ''tests.py'']]"
  using fst_ejecutar_pruebas [of env w] files_ejecutar_pruebas [of env w]
    events_ejecutar_pruebas [of env w]
  by simp

lemma files_analizar_codigo [simp]: "files (analizar_codigo env ruta w) = files w"
  by (simp add: analizar_codigo_def ejecutar_comando_def Let_def split: sum.splits)

lemma events_analizar_codigo [simp]:
  "events (analizar_codigo env ruta w) = events w @ [EvRun [''pylint'', ruta]]"
  by (simp add: analizar_codigo_def ejecutar_comando_def Let_def split: sum.splits)

lemma files_verificar_estilo_codigo [simp]: "files (verificar_estilo_codigo env ruta w) = files w"
  by (simp add: verificar_estilo_codigo_def ejecutar_comando_def Let_def split: sum.splits)

lemma events_verificar_estilo_codigo [simp]:
  "events (verificar_estilo_codigo env ruta w) = events w @ [EvRun [''flake8'', ruta]]"
  by (simp add: verificar_estilo_codigo_def ejecutar_comando_def Let_def split: sum.splits)

lemma files_listar_archivos [simp]: "files (listar_archivos env d w) = files w"
  by (simp add: listar_archivos_def Let_def split: prod.splits option.splits)

lemma events_listar_archivos [simp]: "events (listar_archivos env d w) = events w"
  by (simp add: listar_archivos_def Let_def split: prod.splits option.splits)

subsection \<open>The engine\<close>

lemma files_mejorar_iteracion [simp]: "files (snd (mejorar_iteracion env i c w)) = files w"
  by (simp add: mejorar_iteracion_def Let_def split: sum.splits list.splits)

lemma events_mejorar_iteracion [simp]:
  "events (snd (mejorar_iteracion env i c w)) = events w @ [EvCompletion (prompt c)]"
  by (simp add: mejorar_iteracion_def Let_def split: sum.splits list.splits)

lemma fst_mejorar_iteracion: "fst (mejorar_iteracion env i c w) = round_trip env i c"
  by (simp add: mejorar_iteracion_def round_trip_def prompt_def o_acute_def nl_def Let_def
           split: sum.splits list.splits)

lemma files_mejorar_loop [simp]: "files (snd (mejorar_loop env i k c w)) = files w"
proof (induction k arbitrary: i c w)
  case 0
  show ?case by simp
next
  case (Suc k)
  show ?case
  proof (cases "mejorar_iteracion env i c w")
    case (Pair r w1)
    moreover from Pair have "files w1 = files w"
      using files_mejorar_iteracion [of env i c w] by simp
    ultimately show ?thesis
      by (cases r) (simp_all add: Suc.IH)
  qed
qed

lemma mejorar_loop_snoc:
  "mejorar_loop env i (Suc k) c w =
     (case mejorar_loop env i k c w of
        (None, w1) \<Rightarrow> (None, w1)
      | (Some c1, w1) \<Rightarrow> mejorar_iteracion env (i + k) c1 w1)"
proof (induction k arbitrary: i c w)
  case 0
  show ?case by (simp split: prod.splits option.splits)
next
  case (Suc k)
  show ?case
  proof (cases "mejorar_iteracion env i c w")
    case (Pair r w1)
    show ?thesis
    proof (cases r)
      case None
      with Pair show ?thesis by simp
    next
      case (Some s)
      have a: "mejorar_loop env i (Suc (Suc k)) c w = mejorar_loop env (Suc i) (Suc k) s w1"
        using Pair Some by simp
      have b: "mejorar_loop env i (Suc k) c w = mejorar_loop env (Suc i) k s w1"
        using Pair Some by simp
      show ?thesis
        by (simp only: a b Suc.IH [of "Suc i" s w1] add_Suc_shift)
    qed
  qed
qed

lemma round_trips_0 [simp]: "round_trips env 0 c = Some c"
  by (simp add: round_trips_def)

lemma round_trips_Suc:
  "round_trips env (Suc n) c = Option.bind (round_trips env n c) (round_trip env n)"
  by (simp add: round_trips_def)

lemma round_trips_None_mono:
  "round_trips env m c = None \<Longrightarrow> m \<le> n \<Longrightarrow> round_trips env n c = None"
  by (induction n) (auto simp: round_trips_Suc le_Suc_eq)

lemma requests_Suc:
  "requests env (Suc m) c = requests env m c @ [EvCompletion (prompt (the (round_trips env m c)))]"
  by (simp add: requests_def prompt_def o_acute_def nl_def)

text \<open>The loop computes the fold; it performs every round whose input exists.\<close>

lemma fst_mejorar_loop: "fst (mejorar_loop env 0 n c w) = round_trips env n c"
proof (induction n)
  case 0
  show ?case by simp
next
  case (Suc n)
  show ?case
  proof (cases "mejorar_loop env 0 n c w")
    case (Pair r w1)
    with Suc have r: "r = round_trips env n c" by simp
    show ?thesis
    proof (cases "round_trips env n c")
      case None
      with Pair r have "mejorar_loop env 0 n c w = (None, w1)" by simp
      with None show ?thesis
        by (simp add: mejorar_loop_snoc round_trips_Suc del: mejorar_loop.simps)
    next
      case (Some c1)
      with Pair r have "mejorar_loop env 0 n c w = (Some c1, w1)" by simp
      with Some show ?thesis
        by (simp add: mejorar_loop_snoc round_trips_Suc fst_mejorar_iteracion
                 del: mejorar_loop.simps)
    qed
  qed
qed

lemma events_mejorar_loop_ok:
  "round_trips env n c \<noteq> None \<Longrightarrow>
   events (snd (mejorar_loop env 0 n c w)) = events w @ requests env n c"
proof (induction n)
  case 0
  show ?case by (simp add: requests_def)
next
  case (Suc n)
  from Suc.prems obtain c1 where c1: "round_trips env n c = Some c1"
    by (auto simp: round_trips_Suc split: Option.bind_splits)
  obtain r w1 where p: "mejorar_loop env 0 n c w = (r, w1)"
    by (cases "mejorar_loop env 0 n c w")
  from p c1 have r: "r = Some c1"
    using fst_mejorar_loop [of env n c w] by simp
  from p c1 Suc.IH have e: "events w1 = events w @ requests env n c"
    by simp
  show ?case
    using p r e c1 events_mejorar_iteracion [of env n c1 w1]
    by (simp add: mejorar_loop_snoc requests_Suc del: mejorar_loop.simps)
qed

lemma events_mejorar_loop_fail:
  "round_trips env j c = Some c1 \<Longrightarrow> round_trip env j c1 = None \<Longrightarrow> j < n \<Longrightarrow>
   events (snd (mejorar_loop env 0 n c w)) = events w @ requests env (Suc j) c"
proof (induction n)
  case 0
  then show ?case by simp
next
  case (Suc n)
  obtain r w1 where p: "mejorar_loop env 0 n c w = (r, w1)"
    by (cases "mejorar_loop env 0 n c w")
  show ?case
  proof (cases "j = n")
    case True
    from p Suc.prems True have r: "r = Some c1"
      using fst_mejorar_loop [of env n c w] by simp
    from Suc.prems True have "round_trips env n c \<noteq> None" by simp
    with p have e: "events w1 = events w @ requests env n c"
      using events_mejorar_loop_ok [of env n c w] by simp
    show ?thesis
      using p r e True Suc.prems events_mejorar_iteracion [of env n c1 w1]
      by (simp add: mejorar_loop_snoc requests_Suc del: mejorar_loop.simps)
  next
    case False
    with Suc.prems have lt: "j < n" by simp
    from Suc.prems have "round_trips env (Suc j) c = None"
      by (simp add: round_trips_Suc)
    with lt have "round_trips env n c = None"
      by (auto intro: round_trips_None_mono)
    with p have r: "r = None"
      using fst_mejorar_loop [of env n c w] by simp
    from Suc.IH [OF Suc.prems(1,2) lt] p have e: "events w1 = events w @ requests env (Suc j) c"
      by simp
    show ?thesis
      using p r e by (simp add: mejorar_loop_snoc del: mejorar_loop.simps)
  qed
qed


subsection \<open>Files\<close>

lemma cargar_codigo_ok:
  "files w canonical = Some c \<Longrightarrow> read_error env canonical = None \<Longrightarrow>
   cargar_codigo env canonical w = (Inr (universal_newlines c), emit (EvRead canonical) w)"
  by (simp add: cargar_codigo_def open_read_def Let_def)

lemma cargar_codigo_cases:
  "cargar_codigo env ruta w = (r, w1) \<Longrightarrow>
   files w1 = files w \<and> events w1 = events w @ [EvRead ruta] \<and>
   (case r of
      Inl status \<Rightarrow> status = 1 \<and> (files w ruta = None \<or> read_error env ruta \<noteq> None)
    | Inr c \<Rightarrow> (\<exists>contenido. files w ruta = Some contenido \<and> c = universal_newlines contenido)
              \<and> read_error env ruta = None)"
  by (auto simp: cargar_codigo_def open_read_def Let_def split: option.splits)

text \<open>The write to \<^verbatim>\<open>codigo.py\<close> never reaches \<^verbatim>\<open>open\<close>: its directory name is empty.\<close>

lemma crear_archivo_canonical:
  "crear_archivo env canonical c w =
     logging ERROR
       (Text (''Error al crear el archivo '' @ canonical @ '': ''
              @ ''[Errno 2] No such file or directory: '' @ quote @ quote))
       (emit (EvMakedirs []) w)"
  by (simp add: crear_archivo_def makedirs_def dirname_canonical Let_def)

lemma files_crear_archivo_other:
  "ruta' \<noteq> ruta \<Longrightarrow> files (crear_archivo env ruta c w) ruta' = files w ruta'"
  by (simp add: crear_archivo_def makedirs_def open_write_def Let_def
           split: option.splits write_result.splits)

lemma files_crear_archivo_written:
  "dirname ruta \<noteq> [] \<Longrightarrow> mkdir_error env (dirname ruta) = None \<Longrightarrow>
   write_outcome env ruta c = Written \<Longrightarrow>
   files (crear_archivo env ruta c w) = (files w)(ruta \<mapsto> c)"
  by (simp add: crear_archivo_def makedirs_def open_write_def Let_def)

lemma shutil_move_cases:
  "shutil_move env src dst w = (r, w1) \<Longrightarrow>
   events w1 = events w @ [EvMove src dst] \<and>
   (\<forall>p. p \<noteq> src \<longrightarrow> p \<noteq> dst \<longrightarrow> files w1 p = files w p) \<and>
   (r = None \<longrightarrow> files w1 = (files w)(src := None, dst := files w src) \<and>
                 files w src \<noteq> None \<and> move_outcome env src dst = Moved)"
  by (auto simp: shutil_move_def Let_def split: option.splits move_result.splits)

subsection \<open>The driver after the swap\<close>

text \<open>Whatever the second test run says, \<^verbatim>\<open>codigo.py\<close> stays as the swap left it.\<close>

lemma files_main_after_swap_canonical:
  "files (main_after_swap env c w) canonical = files w canonical"
proof -
  obtain b w1 where t: "ejecutar_pruebas env w = (b, w1)"
    by (cases "ejecutar_pruebas env w")
  then have f: "files w1 = files w"
    by (simp add: ejecutar_pruebas_cases)
  show ?thesis
    using t f
    by (cases b)
       (simp_all add: main_after_swap_def guardar_codigo_def Let_def files_crear_archivo_other
          paths_distinct crear_archivo_canonical)
qed

lemma files_main_after_swap_resta_py:
  assumes "mkdir_error env ''nuevas_funciones'' = None"
    and "write_outcome env resta_py nuevo_codigo = Written"
  shows "files (main_after_swap env c w) resta_py = Some nuevo_codigo"
  using assms
  by (simp add: main_after_swap_def guardar_codigo_def Let_def files_crear_archivo_written
        dirname_resta_py)

subsection \<open>The driver until the swap\<close>

lemma files_mejorar_codigo [simp]: "files (snd (mejorar_codigo env c n w)) = files w"
  by (simp add: mejorar_codigo_def)

lemma fst_mejorar_codigo: "fst (mejorar_codigo env c n w) = round_trips env (nat n) c"
  by (simp add: mejorar_codigo_def fst_mejorar_loop)

lemma mejorar_codigo_cases:
  "mejorar_codigo env c n w = (r, w1) \<Longrightarrow> r = round_trips env (nat n) c \<and> files w1 = files w"
  using fst_mejorar_codigo [of env c n w] files_mejorar_codigo [of env c n w] by simp

text \<open>The three ways out before the engine has produced a text.\<close>

lemma main_until_swap_load_fails:
  assumes "files w canonical = None \<or> read_error env canonical \<noteq> None"
  shows "\<exists>w1. main_until_swap env w = Inl (1, w1) \<and> files w1 = files w
               \<and> events w1 = events w @ [EvRead canonical]"
proof -
  obtain r w1 where c: "cargar_codigo env canonical w = (r, w1)"
    by (cases "cargar_codigo env canonical w")
  from cargar_codigo_cases [OF c] assms show ?thesis
    using c by (cases r) (auto simp: main_until_swap_def)
qed

lemma main_until_swap_tests_fail:
  assumes "files w canonical = Some c" and "read_error env canonical = None"
    and "\<not> test_gate env (files w)"
  shows "\<exists>w1. main_until_swap env w = Inl (1, w1) \<and> files w1 = files w
               \<and> events w1 = events w @ [EvRead canonical, EvRun [''pytest'', ''tests.py'']]"
proof -
  obtain b w2 where t: "ejecutar_pruebas env (emit (EvRead canonical) w) = (b, w2)"
    by (cases "ejecutar_pruebas env (emit (EvRead canonical) w)")
  from ejecutar_pruebas_cases [OF t] assms have "\<not> b" "files w2 = files w"
    "events w2 = events w @ [EvRead canonical, EvRun [''pytest'', ''tests.py'']]"
    by simp_all
  then show ?thesis
    using t assms by (simp add: main_until_swap_def cargar_codigo_ok)
qed

lemma main_until_swap_no_result:
  assumes "files w canonical = Some c" and "read_error env canonical = None"
    and "test_gate env (files w)"
    and "round_trips env 3 (universal_newlines c) = None \<or>
         round_trips env 3 (universal_newlines c) = Some []"
  shows "\<exists>w1. main_until_swap env w = Inl (1, w1) \<and> files w1 = files w"
proof -
  obtain b w2 where t: "ejecutar_pruebas env (emit (EvRead canonical) w) = (b, w2)"
    by (cases "ejecutar_pruebas env (emit (EvRead canonical) w)")
  from ejecutar_pruebas_cases [OF t] assms have b: "b" and f2: "files w2 = files w"
    by simp_all
  define w3 where
    "w3 = logging INFO (Text (''El c'' @ o_acute @ ''digo original pasa todas las pruebas.'')) w2"
  obtain r w4 where m: "mejorar_codigo env (universal_newlines c) 3 w3 = (r, w4)"
    by (cases "mejorar_codigo env (universal_newlines c) 3 w3")
  from mejorar_codigo_cases [OF m] f2 have r: "r = round_trips env 3 (universal_newlines c)"
    and f4: "files w4 = files w"
    by (simp_all add: w3_def)
  from r assms(4) have "r = None \<or> r = Some []" by simp
  then show ?thesis
    using t b m f4 assms(1,2)
    by (auto simp: main_until_swap_def cargar_codigo_ok Let_def w3_def)
qed

text \<open>The run that stages the text of the engine and swaps it in.\<close>

lemma main_until_swap_swapped:
  assumes "files w canonical = Some c" and "read_error env canonical = None"
    and "test_gate env (files w)"
    and "round_trips env 3 (universal_newlines c) = Some m" and "m \<noteq> []"
    and "mkdir_error env ''temp'' = None" and "write_outcome env staged m = Written"
    and "move_outcome env staged canonical = Moved"
  shows "\<exists>w1. main_until_swap env w = Inr (universal_newlines c, m, w1) \<and>
               files w1 = (files w)(staged := None, canonical \<mapsto> m)"
proof -
  obtain b w2 where t: "ejecutar_pruebas env (emit (EvRead canonical) w) = (b, w2)"
    by (cases "ejecutar_pruebas env (emit (EvRead canonical) w)")
  from ejecutar_pruebas_cases [OF t] assms have b: "b" and f2: "files w2 = files w"
    by simp_all
  define w3 where
    "w3 = logging INFO (Text (''El c'' @ o_acute @ ''digo original pasa todas las pruebas.'')) w2"
  let ?c = "universal_newlines c"
  obtain r w4 where mc: "mejorar_codigo env ?c 3 w3 = (r, w4)"
    by (cases "mejorar_codigo env ?c 3 w3")
  from mejorar_codigo_cases [OF mc] f2 assms(4) have r: "r = Some m" and f4: "files w4 = files w"
    by (simp_all add: w3_def)
  define w9 where
    "w9 = verificar_estilo_codigo env staged
            (analizar_codigo env staged
               (fold (\<lambda>d. logging INFO (Obj d)) (calcular_diferencia env ?c m)
                  (logging INFO (Text (''Diferencias entre el c'' @ o_acute
                                        @ ''digo original y el mejorado:''))
                     (guardar_codigo env staged m w4))))"
  have f9: "files w9 = (files w)(staged \<mapsto> m)"
    using assms(6,7) f4
    by (simp add: w9_def guardar_codigo_def files_crear_archivo_written dirname_staged)
  obtain e w10 where mv: "shutil_move env staged canonical w9 = (e, w10)"
    by (cases "shutil_move env staged canonical w9")
  from mv f9 assms(8) have e: "e = None"
    by (auto simp: shutil_move_def Let_def)
  from shutil_move_cases [OF mv] e f9
  have f10: "files w10 = (files w)(staged := None, canonical \<mapsto> m)"
    by (auto simp: paths_distinct)
  have "main_until_swap env w = Inr (?c, m, w10)"
    using t b mc r mv e assms(1,2,5)
    by (simp add: main_until_swap_def cargar_codigo_ok Let_def w3_def w9_def)
  with f10 show ?thesis by blast
qed

subsection \<open>The linters reach the log only\<close>

lemma same_effects_refl [simp]: "same_effects w w"
  by (simp add: same_effects_def)

lemma same_effects_logging: "same_effects w w' \<Longrightarrow> same_effects (logging l m w) (logging l' m' w')"
  by (simp add: same_effects_def)

lemma same_effects_crear_archivo:
  "same_effects w w' \<Longrightarrow> same_effects (crear_archivo env ruta c w) (crear_archivo env ruta c w')"
  by (simp add: same_effects_def crear_archivo_def makedirs_def open_write_def Let_def
           split: option.splits write_result.splits)

lemma same_effects_listar_archivos:
  "same_effects w w' \<Longrightarrow> same_effects (listar_archivos env d w) (listar_archivos env' d w')"
  by (simp add: same_effects_def)

lemma same_effects_linters:
  "same_effects w w' \<Longrightarrow>
   same_effects (verificar_estilo_codigo env ruta (analizar_codigo env ruta w))
                (verificar_estilo_codigo env' ruta (analizar_codigo env' ruta w'))"
  by (simp add: same_effects_def)

lemma same_effects_shutil_move:
  "same_effects w w' \<Longrightarrow>
   fst (shutil_move env src dst w) = fst (shutil_move env src dst w') \<and>
   same_effects (snd (shutil_move env src dst w)) (snd (shutil_move env src dst w'))"
  by (simp add: same_effects_def shutil_move_def Let_def
           split: option.splits move_result.splits)

lemma same_effects_ejecutar_pruebas:
  "same_effects w w' \<Longrightarrow> test_gate env (files w') = test_gate env' (files w') \<Longrightarrow>
   fst (ejecutar_pruebas env w) = fst (ejecutar_pruebas env' w') \<and>
   same_effects (snd (ejecutar_pruebas env w)) (snd (ejecutar_pruebas env' w'))"
  by (simp add: same_effects_def fst_ejecutar_pruebas)

text \<open>Replacing the answers to the linter commands leaves every other function as it is.\<close>

lemma ejecutar_pruebas_linters:
  "\<forall>comando fs. \<not> is_linter comando \<longrightarrow> run' comando fs = subprocess_run env comando fs \<Longrightarrow>
   ejecutar_pruebas (env\<lparr>subprocess_run := run'\<rparr>) w = ejecutar_pruebas env w"
  by (simp add: ejecutar_pruebas_def ejecutar_comando_def is_linter_def Let_def)

lemma cargar_codigo_linters [simp]:
  "cargar_codigo (env\<lparr>subprocess_run := run'\<rparr>) ruta w = cargar_codigo env ruta w"
  by (simp add: cargar_codigo_def open_read_def Let_def split: option.splits)

lemma mejorar_iteracion_linters [simp]:
  "mejorar_iteracion (env\<lparr>subprocess_run := run'\<rparr>) i c w = mejorar_iteracion env i c w"
  by (simp add: mejorar_iteracion_def Let_def split: sum.splits list.splits)

lemma mejorar_loop_linters [simp]:
  "mejorar_loop (env\<lparr>subprocess_run := run'\<rparr>) i k c w = mejorar_loop env i k c w"
  by (induction k arbitrary: i c w) (simp_all split: prod.splits option.splits)

lemma mejorar_codigo_linters [simp]:
  "mejorar_codigo (env\<lparr>subprocess_run := run'\<rparr>) c n w = mejorar_codigo env c n w"
  by (simp add: mejorar_codigo_def)

lemma crear_archivo_linters [simp]:
  "crear_archivo (env\<lparr>subprocess_run := run'\<rparr>) ruta c w = crear_archivo env ruta c w"
  by (simp add: crear_archivo_def makedirs_def open_write_def Let_def
           split: option.splits write_result.splits)

lemma calcular_diferencia_linters [simp]:
  "calcular_diferencia (env\<lparr>subprocess_run := run'\<rparr>) a b = calcular_diferencia env a b"
  by (simp add: calcular_diferencia_def)

lemma shutil_move_linters [simp]:
  "shutil_move (env\<lparr>subprocess_run := run'\<rparr>) src dst w = shutil_move env src dst w"
  by (simp add: shutil_move_def Let_def split: option.splits move_result.splits)

lemma listar_archivos_linters [simp]:
  "listar_archivos (env\<lparr>subprocess_run := run'\<rparr>) d w = listar_archivos env d w"
  by (simp add: listar_archivos_def Let_def split: prod.splits option.splits)

lemma main_after_swap_linters:
  assumes "\<forall>comando fs. \<not> is_linter comando \<longrightarrow> run' comando fs = subprocess_run env comando fs"
    and "same_effects w w'"
  shows "same_effects (main_after_swap (env\<lparr>subprocess_run := run'\<rparr>) c w) (main_after_swap env c w')"
proof -
  let ?env' = "env\<lparr>subprocess_run := run'\<rparr>"
  obtain b w1 where t: "ejecutar_pruebas env w = (b, w1)"
    by (cases "ejecutar_pruebas env w")
  obtain b' w1' where t': "ejecutar_pruebas env w' = (b', w1')"
    by (cases "ejecutar_pruebas env w'")
  from same_effects_ejecutar_pruebas [OF assms(2), of env env] t t'
  have b: "b' = b" and s1: "same_effects w1 w1'"
    by simp_all
  show ?thesis
    using t t' b s1
    by (cases b)
       (simp_all add: main_after_swap_def ejecutar_pruebas_linters [OF assms(1)] Let_def
          guardar_codigo_def same_effects_listar_archivos same_effects_logging
          same_effects_crear_archivo)
qed

lemma main_until_swap_linters:
  assumes "\<forall>comando fs. \<not> is_linter comando \<longrightarrow> run' comando fs = subprocess_run env comando fs"
  shows "(case (main_until_swap (env\<lparr>subprocess_run := run'\<rparr>) w, main_until_swap env w) of
            (Inl (status, w1), Inl (status', w1')) \<Rightarrow> status = status' \<and> same_effects w1 w1'
          | (Inr (c, m, w1), Inr (c', m', w1')) \<Rightarrow> c = c' \<and> m = m' \<and> same_effects w1 w1'
          | (Inl a, Inr b) \<Rightarrow> False
          | (Inr b, Inl a) \<Rightarrow> False)"
proof (cases "cargar_codigo env canonical w")
  case (Pair r0 w0)
  show ?thesis
  proof (cases r0)
    case (Inl status)
    with Pair show ?thesis by (simp add: main_until_swap_def)
  next
    case (Inr c)
    obtain b w2 where t: "ejecutar_pruebas env w0 = (b, w2)"
      by (cases "ejecutar_pruebas env w0")
    show ?thesis
    proof (cases b)
      case False
      with Pair Inr t show ?thesis
        by (simp add: main_until_swap_def ejecutar_pruebas_linters [OF assms])
    next
      case True
      define w3 where
        "w3 = logging INFO (Text (''El c'' @ o_acute @ ''digo original pasa todas las pruebas.'')) w2"
      obtain r w4 where mc: "mejorar_codigo env c 3 w3 = (r, w4)"
        by (cases "mejorar_codigo env c 3 w3")
      show ?thesis
      proof (cases "r = None \<or> r = Some []")
        case True
        with Pair Inr t \<open>b\<close> mc show ?thesis
          by (auto simp: main_until_swap_def ejecutar_pruebas_linters [OF assms] Let_def w3_def)
      next
        case False
        then obtain m where r: "r = Some m" and ne: "m \<noteq> []" by auto
        define w7 where
          "w7 = fold (\<lambda>d. logging INFO (Obj d)) (calcular_diferencia env c m)
                  (logging INFO (Text (''Diferencias entre el c'' @ o_acute
                                        @ ''digo original y el mejorado:''))
                     (guardar_codigo env staged m w4))"
        let ?env' = "env\<lparr>subprocess_run := run'\<rparr>"
        define w9 where "w9 = verificar_estilo_codigo env staged (analizar_codigo env staged w7)"
        define w9' where "w9' = verificar_estilo_codigo ?env' staged (analizar_codigo ?env' staged w7)"
        have s9: "same_effects w9' w9"
          unfolding w9_def w9'_def by (rule same_effects_linters) simp
        obtain e w10 where mv: "shutil_move env staged canonical w9 = (e, w10)"
          by (cases "shutil_move env staged canonical w9")
        obtain e' w10' where mv': "shutil_move env staged canonical w9' = (e', w10')"
          by (cases "shutil_move env staged canonical w9'")
        from same_effects_shutil_move [OF s9, of env staged canonical] mv mv'
        have e: "e' = e" and s10: "same_effects w10' w10"
          by simp_all
        show ?thesis
          using Pair Inr t \<open>b\<close> mc r ne mv mv' e s10
          by (cases e)
             (simp_all add: main_until_swap_def ejecutar_pruebas_linters [OF assms] Let_def
                w3_def w7_def w9_def w9'_def guardar_codigo_def same_effects_logging)
      qed
    qed
  qed
qed

subsection \<open>Whole runs\<close>

lemma main_swapped:
  assumes "files w canonical = Some c" and "read_error env canonical = None"
    and "test_gate env (files w)"
    and "round_trips env 3 (universal_newlines c) = Some m" and "m \<noteq> []"
    and "mkdir_error env ''temp'' = None" and "write_outcome env staged m = Written"
    and "move_outcome env staged canonical = Moved"
  shows "\<exists>w1. main env w = (0, main_after_swap env (universal_newlines c) w1) \<and>
               files w1 = (files w)(staged := None, canonical \<mapsto> m)"
proof -
  from main_until_swap_swapped [OF assms]
  obtain w1 where "main_until_swap env w = Inr (universal_newlines c, m, w1)"
    and "files w1 = (files w)(staged := None, canonical \<mapsto> m)"
    by blast
  then show ?thesis
    by (auto simp: main_def)
qed

lemma main_no_result:
  assumes "files w canonical = Some c" and "read_error env canonical = None"
    and "test_gate env (files w)"
    and "round_trips env 3 (universal_newlines c) = None \<or>
         round_trips env 3 (universal_newlines c) = Some []"
  shows "fst (main env w) = 1 \<and> files (snd (main env w)) = files w"
proof -
  from main_until_swap_no_result [OF assms]
  obtain w1 where "main_until_swap env w = Inl (1, w1)" and "files w1 = files w"
    by blast
  then show ?thesis
    by (simp add: main_def)
qed

text \<open>The log only grows.\<close>

lemma log_crear_archivo:
  "\<exists>l. log_records (crear_archivo env ruta c w) = log_records w @ l"
  by (simp add: crear_archivo_def makedirs_def open_write_def Let_def
           split: option.splits write_result.splits)

lemma log_fold_logging:
  "\<exists>l. log_records (fold (\<lambda>x. logging lv (f x)) xs w) = log_records w @ l"
proof (induction xs arbitrary: w)
  case Nil
  show ?case by simp
next
  case (Cons x xs)
  from Cons [of "logging lv (f x) w"] obtain l
    where "log_records (fold (\<lambda>x. logging lv (f x)) xs (logging lv (f x) w))
             = log_records (logging lv (f x) w) @ l"
    by blast
  then show ?case by simp
qed

lemma log_listar_archivos:
  "\<exists>l. log_records (listar_archivos env d w) = log_records w @ l"
proof -
  obtain paths r where o: "os_walk env d (files w) = (paths, r)"
    by (cases "os_walk env d (files w)")
  obtain l where "log_records (fold (\<lambda>p. logging INFO (Text p)) paths w) = log_records w @ l"
    using log_fold_logging [of INFO Text paths w] by blast
  with o show ?thesis
    by (cases r) (simp_all add: listar_archivos_def Let_def)
qed

text \<open>When the second test run fails, the restore is attempted and its failure is logged.\<close>

lemma log_main_after_swap_restore:
  assumes "\<not> test_gate env (files w)"
  shows "(ERROR, Text (''Error al crear el archivo '' @ canonical @ '': ''
                       @ ''[Errno 2] No such file or directory: '' @ quote @ quote))
         \<in> set (log_records (main_after_swap env c w))"
proof -
  obtain b w1 where t: "ejecutar_pruebas env w = (b, w1)"
    by (cases "ejecutar_pruebas env w")
  from ejecutar_pruebas_cases [OF t] assms have b: "\<not> b" by simp
  define w2 where
    "w2 = guardar_codigo env canonical c
            (logging INFO
               (Text (''El c'' @ o_acute @ ''digo mejorado no pasa todas las pruebas, ''
                      @ ''se mantiene el c'' @ o_acute @ ''digo original.'')) w1)"
  have in2: "(ERROR, Text (''Error al crear el archivo '' @ canonical @ '': ''
                       @ ''[Errno 2] No such file or directory: '' @ quote @ quote))
         \<in> set (log_records w2)"
    by (simp add: w2_def guardar_codigo_def crear_archivo_canonical)
  obtain l3 where l3: "log_records (guardar_codigo env resta_py nuevo_codigo w2) = log_records w2 @ l3"
    using log_crear_archivo [of env resta_py nuevo_codigo w2] by (auto simp: guardar_codigo_def)
  define w4 where
    "w4 = logging INFO (Text ''Archivos en el proyecto:'') (guardar_codigo env resta_py nuevo_codigo w2)"
  obtain l5 where l5: "log_records (listar_archivos env ''.'' w4) = log_records w4 @ l5"
    using log_listar_archivos [of env "''.''" w4] by blast
  have "main_after_swap env c w = listar_archivos env ''.'' w4"
    using t b by (simp add: main_after_swap_def Let_def w4_def w2_def)
  with in2 l3 l5 show ?thesis
    by (simp add: w4_def)
qed

text \<open>A run that exits before the second test run has written to the staging path and,
  in a move that failed half way, to \<^verbatim>\<open>codigo.py\<close>, and nowhere else.\<close>

lemma main_until_swap_Inl:
  assumes "main_until_swap env w = Inl (status, w1)"
  shows "status = 1 \<and> (\<forall>p. p \<noteq> staged \<longrightarrow> p \<noteq> canonical \<longrightarrow> files w1 p = files w p)"
proof -
  obtain r0 w0 where c0: "cargar_codigo env canonical w = (r0, w0)"
    by (cases "cargar_codigo env canonical w")
  from cargar_codigo_cases [OF c0] have f0: "files w0 = files w" by simp
  show ?thesis
  proof (cases r0)
    case (Inl s)
    with cargar_codigo_cases [OF c0] assms c0 f0 show ?thesis
      by (auto simp: main_until_swap_def)
  next
    case (Inr c)
    obtain b w2 where t: "ejecutar_pruebas env w0 = (b, w2)"
      by (cases "ejecutar_pruebas env w0")
    from ejecutar_pruebas_cases [OF t] f0 have f2: "files w2 = files w" by simp
    show ?thesis
    proof (cases b)
      case False
      with assms c0 Inr t f2 show ?thesis
        by (auto simp: main_until_swap_def)
    next
      case True
      define w3 where
        "w3 = logging INFO (Text (''El c'' @ o_acute @ ''digo original pasa todas las pruebas.'')) w2"
      obtain r w4 where mc: "mejorar_codigo env c 3 w3 = (r, w4)"
        by (cases "mejorar_codigo env c 3 w3")
      from mejorar_codigo_cases [OF mc] f2 have f4: "files w4 = files w"
        by (simp add: w3_def)
      show ?thesis
      proof (cases "r = None \<or> r = Some []")
        case True
        with assms c0 Inr t \<open>b\<close> mc f4 show ?thesis
          by (auto simp: main_until_swap_def Let_def w3_def)
      next
        case False
        then obtain m where r: "r = Some m" and ne: "m \<noteq> []" by auto
        define w9 where
          "w9 = verificar_estilo_codigo env staged
                  (analizar_codigo env staged
                     (fold (\<lambda>d. logging INFO (Obj d)) (calcular_diferencia env c m)
                        (logging INFO (Text (''Diferencias entre el c'' @ o_acute
                                              @ ''digo original y el mejorado:''))
                           (guardar_codigo env staged m w4))))"
        have f9: "\<forall>p. p \<noteq> staged \<longrightarrow> files w9 p = files w p"
          using f4 by (simp add: w9_def guardar_codigo_def files_crear_archivo_other)
        obtain e w10 where mv: "shutil_move env staged canonical w9 = (e, w10)"
          by (cases "shutil_move env staged canonical w9")
        from assms c0 Inr t \<open>b\<close> mc r ne mv obtain x where e: "e = Some x"
          and res: "status = 1" "files w1 = files w10"
          by (cases e) (auto simp: main_until_swap_def Let_def w3_def w9_def)
        from shutil_move_cases [OF mv]
        have "\<forall>p. p \<noteq> staged \<longrightarrow> p \<noteq> canonical \<longrightarrow> files w10 p = files w9 p" by simp
        with res f9 show ?thesis by simp
      qed
    qed
  qed
qed

lemma main_aborted_files:
  assumes "fst (main env w) \<noteq> 0" and "p \<noteq> staged" and "p \<noteq> canonical"
  shows "files (snd (main env w)) p = files w p"
proof (cases "main_until_swap env w")
  case (Inl a)
  obtain status w1 where a: "a = (status, w1)" by (cases a)
  from main_until_swap_Inl [of env w status w1] Inl a assms(2,3) show ?thesis
    by (simp add: main_def)
next
  case (Inr b)
  with assms(1) show ?thesis
    by (simp add: main_def split: prod.splits)
qed

lemma main_done_resta_py:
  assumes "fst (main env w) = 0"
    and "mkdir_error env ''nuevas_funciones'' = None"
    and "write_outcome env resta_py nuevo_codigo = Written"
  shows "files (snd (main env w)) resta_py = Some nuevo_codigo"
proof (cases "main_until_swap env w")
  case (Inl a)
  obtain status w1 where a: "a = (status, w1)" by (cases a)
  from main_until_swap_Inl [of env w status w1] Inl a assms(1) show ?thesis
    by (simp add: main_def)
next
  case (Inr b)
  with assms(2,3) show ?thesis
    by (simp add: main_def files_main_after_swap_resta_py split: prod.splits)
qed

lemma pipeline_runs_resta_py:
  assumes "\<forall>env \<in> set envs. mkdir_error env ''nuevas_funciones'' = None \<and>
                             write_outcome env resta_py nuevo_codigo = Written"
    and "0 \<in> set (fst (pipeline_runs envs w)) \<or> files w resta_py = Some nuevo_codigo"
  shows "files (snd (pipeline_runs envs w)) resta_py = Some nuevo_codigo"
  using assms
proof (induction envs arbitrary: w)
  case Nil
  then show ?case by simp
next
  case (Cons env envs)
  obtain status w1 where m: "main env w = (status, w1)"
    by (cases "main env w")
  obtain sts w2 where p: "pipeline_runs envs w1 = (sts, w2)"
    by (cases "pipeline_runs envs w1")
  have "0 \<in> set (fst (pipeline_runs envs w1)) \<or> files w1 resta_py = Some nuevo_codigo"
  proof (cases "status = 0")
    case True
    with m Cons.prems(1) main_done_resta_py [of env w] show ?thesis by simp
  next
    case False
    with m main_aborted_files [of env w resta_py] have "files w1 resta_py = files w resta_py"
      by (simp add: paths_distinct)
    with Cons.prems(2) m p False show ?thesis by auto
  qed
  with Cons.IH [of w1] Cons.prems(1) m p show ?case by simp
qed

subsection \<open>The example runs, evaluated\<close>

lemma example_load:
  "files world0 canonical = Some original_text"
  "files world_crlf canonical = Some original_crlf"
  "files world_failing canonical = Some broken_text"
  "read_error (example_env service) canonical = None"
  "events world0 = []"
  "events world_crlf = []"
  "events world_failing = []"
  by (simp_all add: world0_def world_crlf_def world_failing_def canonical_def example_env_def)

lemma universal_newlines_original_text: "universal_newlines original_text = original_text"
  by code_simp

lemma universal_newlines_original_crlf: "universal_newlines original_crlf = original_text"
  by code_simp

lemma universal_newlines_broken_text: "universal_newlines broken_text = broken_text"
  by code_simp

lemmas example_newlines =
  universal_newlines_original_text universal_newlines_original_crlf
  universal_newlines_broken_text

lemma example_staging:
  "mkdir_error (example_env service) name = None"
  "write_outcome (example_env service) ruta c = Written"
  "move_outcome (example_env service) src dst = Moved"
  by (simp_all add: example_env_def)

lemma example_texts:
  "improved_text \<noteq> []" "broken_text \<noteq> []"
  "broken_text \<noteq> original_text" "broken_text \<noteq> improved_text"
  "broken_text \<noteq> original_crlf" "CHR 0x0D \<notin> set original_text"
  "CHR 0x0D \<notin> set improved_text"
  by (simp_all add: improved_text_def broken_text_def original_text_def original_crlf_def nl_def)

lemma example_test_gate:
  "test_gate (example_env service) fs =
     (fs canonical = Some original_text \<or> fs canonical = Some original_crlf \<or>
      fs canonical = Some improved_text)"
  by (simp add: test_gate_def example_env_def quiet_run_def pytest_on_def canonical_def)

lemma strip_improved_padded: "strip padded_text = improved_text"
  by code_simp

lemma strip_broken: "strip broken_text = broken_text"
  by code_simp

lemma strip_improved: "strip improved_text = improved_text"
  by code_simp

lemma strip_blank: "strip ''   '' = []"
  by code_simp

lemmas example_strip = strip_improved_padded strip_broken strip_improved strip_blank

lemma round_trip_good: "round_trip (example_env service_good) i c = Some improved_text"
  by (simp add: round_trip_def example_env_def service_good_def example_strip)

lemma round_trip_lf:
  "CHR 0x0D \<notin> set c \<Longrightarrow> round_trip (example_env service_lf) i c = Some improved_text"
  by (simp add: round_trip_def example_env_def service_lf_def example_strip)

lemma round_trip_broken: "round_trip (example_env service_broken) i c = Some broken_text"
  by (simp add: round_trip_def example_env_def service_broken_def example_strip)

lemma round_trip_blank: "round_trip (example_env service_blank) i c = Some []"
  by (simp add: round_trip_def example_env_def service_blank_def example_strip)

lemma round_trip_down:
  "round_trip (example_env service_down) i c = (if i = 1 then None else Some improved_text)"
  by (simp add: round_trip_def example_env_def service_down_def example_strip)

lemma example_round_trips:
  "round_trips (example_env service_good) 3 c = Some improved_text"
  "round_trips (example_env service_broken) 3 c = Some broken_text"
  "round_trips (example_env service_blank) 3 c = Some []"
  "round_trips (example_env service_down) 3 c = None"
  "round_trips (example_env service_down) (Suc 0) c = Some improved_text"
  "CHR 0x0D \<notin> set c \<Longrightarrow> round_trips (example_env service_lf) 3 c = Some improved_text"
  by (simp_all add: numeral_3_eq_3 round_trips_Suc round_trip_good round_trip_broken
        round_trip_blank round_trip_down round_trip_lf example_texts)

lemma fst_pipeline_runs_Cons:
  "fst (pipeline_runs (env # envs) w) =
     fst (main env w) # fst (pipeline_runs envs (snd (main env w)))"
  by (simp split: prod.splits)

text \<open>The run with the service whose first candidate does not parse: the tests pass on the
  original, the rewrite is swapped in, the second test run fails, and the restore fails.\<close>

lemma example_main_broken:
  "fst (main (example_env service_broken) world0) = 0"
  "files (snd (main (example_env service_broken) world0)) canonical = Some broken_text"
  "(ERROR, Text (''Error al crear el archivo '' @ canonical @ '': ''
                 @ ''[Errno 2] No such file or directory: '' @ quote @ quote))
     \<in> set (log_records (snd (main (example_env service_broken) world0)))"
proof -
  let ?E = "example_env service_broken"
  obtain w1 where m: "main ?E world0 = (0, main_after_swap ?E original_text w1)"
    and f1: "files w1 = (files world0)(staged := None, canonical \<mapsto> broken_text)"
    using main_swapped [of world0 original_text ?E broken_text]
    by (auto simp: example_load example_staging example_texts example_test_gate
          example_round_trips example_newlines)
  from m f1 show "fst (main ?E world0) = 0"
    and "files (snd (main ?E world0)) canonical = Some broken_text"
    by (simp_all add: files_main_after_swap_canonical)
  from f1 have "\<not> test_gate ?E (files w1)"
    by (simp add: example_test_gate example_texts)
  from log_main_after_swap_restore [OF this, of original_text] m
  show "(ERROR, Text (''Error al crear el archivo '' @ canonical @ '': ''
                 @ ''[Errno 2] No such file or directory: '' @ quote @ quote))
     \<in> set (log_records (snd (main ?E world0)))"
    by simp
qed

subsection \<open>The Differ\<close>

text \<open>
  \<open>calcular_diferencia\<close> returns what the two functions of \<^verbatim>\<open>diff_match_patch\<close> return:
  if the diffs of \<open>diff_main\<close> stand for the two texts and the clean-up keeps the texts
  that a list of diffs stands for, so does the result. Whether the library does is not
  decided by the script.
\<close>

lemma calcular_diferencia_texts:
  assumes "diff_text1 (diff_main env a b) = a" and "diff_text2 (diff_main env a b) = b"
    and "\<And>ds. diff_text1 (diff_cleanupSemantic env ds) = diff_text1 ds"
    and "\<And>ds. diff_text2 (diff_cleanupSemantic env ds) = diff_text2 ds"
  shows "diff_text1 (calcular_diferencia env a b) = a"
    and "diff_text2 (calcular_diferencia env a b) = b"
  using assms by (simp_all add: calcular_diferencia_def)

section \<open>The claims\<close>

text \<open>
  In the statements below a run is \<open>main env w\<close>: its first component is the exit status
  of the process, its second the world at the end. The original text is the text that the
  load returns: \<open>universal_newlines contenido\<close> for the content of \<^verbatim>\<open>codigo.py\<close>. The Test
  Gate on the original is \<open>test_gate env (files w)\<close>, and on the improved text it is
  \<open>test_gate\<close> on the files after the swap, where the staged file is gone and \<^verbatim>\<open>codigo.py\<close>
  holds the improved text. The result of the engine on a text is
  \<open>fst (mejorar_codigo env texto 3 w)\<close>; it is the same in every world
  (\<open>fst_mejorar_codigo\<close>).
\<close>

subsection \<open>The second test run fails\<close>

text \<open>
  Claim C1. After a failed second test run \<^verbatim>\<open>codigo.py\<close> should hold the original text
  again, and the exit status should be 0. The status is 0, but the text is not restored:
  \<open>guardar_codigo\<close> goes through \<open>crear_archivo\<close>, which first calls
  \<^verbatim>\<open>os.makedirs(os.path.dirname('codigo.py'))\<close>, that is \<^verbatim>\<open>os.makedirs('')\<close>; this raises
  \<^verbatim>\<open>FileNotFoundError\<close>, the \<^verbatim>\<open>except\<close> branch logs it, and the file is never opened.
  In the example run the tests pass on the original, the engine returns a rewrite on which
  they fail, and at the end \<^verbatim>\<open>codigo.py\<close> holds the rewrite, which differs from the original.
\<close>

theorem revert_leaves_rewrite:
  "test_gate (example_env service_broken) (files world0) \<and>
   fst (mejorar_codigo (example_env service_broken) original_text 3 world0) = Some broken_text \<and>
   \<not> test_gate (example_env service_broken)
        ((files world0)(staged := None, canonical \<mapsto> broken_text)) \<and>
   fst (main (example_env service_broken) world0) = 0 \<and>
   files (snd (main (example_env service_broken) world0)) canonical = Some broken_text \<and>
   files world0 canonical = Some original_text \<and>
   broken_text \<noteq> original_text"
  by (simp add: example_main_broken example_load example_texts example_test_gate
        fst_mejorar_codigo example_round_trips)

text \<open>
  Claim C6, as amended. A failure of the restoring write is not fatal: when the second test
  run has failed the process exits with status 0, and if \<^verbatim>\<open>codigo.py\<close> does not hold the
  original text at the end, \<open>crear_archivo\<close> has logged an error for that path, as it does
  for every write that fails.
\<close>

theorem restore_failure_not_fatal:
  assumes "files w canonical = Some contenido"
    and "read_error env canonical = None"
    and "test_gate env (files w)"
    and "fst (mejorar_codigo env (universal_newlines contenido) 3 w) = Some mejorado"
    and "mejorado \<noteq> []"
    and "mkdir_error env ''temp'' = None"
    and "write_outcome env staged mejorado = Written"
    and "move_outcome env staged canonical = Moved"
    and "\<not> test_gate env ((files w)(staged := None, canonical \<mapsto> mejorado))"
  shows "fst (main env w) = 0 \<and>
         (files (snd (main env w)) canonical \<noteq> Some (universal_newlines contenido) \<longrightarrow>
            (\<exists>e. (ERROR, Text (''Error al crear el archivo '' @ canonical @ '': '' @ e))
                   \<in> set (log_records (snd (main env w)))))"
proof -
  let ?original = "universal_newlines contenido"
  from assms(4) have "round_trips env 3 ?original = Some mejorado"
    by (simp add: fst_mejorar_codigo)
  with assms obtain w1 where m: "main env w = (0, main_after_swap env ?original w1)"
    and f1: "files w1 = (files w)(staged := None, canonical \<mapsto> mejorado)"
    using main_swapped [of w contenido env mejorado] by blast
  from f1 assms(9) have "\<not> test_gate env (files w1)" by simp
  from log_main_after_swap_restore [OF this, of ?original] m show ?thesis
    by auto
qed

text \<open>The theorem at the example run with the service \<open>service_broken\<close>.\<close>

theorem restore_failure_not_fatal_witness:
  "\<not> test_gate (example_env service_broken)
        ((files world0)(staged := None, canonical \<mapsto> broken_text)) \<and>
   files (snd (main (example_env service_broken) world0)) canonical \<noteq> Some original_text \<and>
   (\<exists>e. (ERROR, Text (''Error al crear el archivo '' @ canonical @ '': '' @ e))
          \<in> set (log_records (snd (main (example_env service_broken) world0)))) \<and>
   fst (main (example_env service_broken) world0) = 0"
  using restore_failure_not_fatal
    [of world0 original_text "example_env service_broken" broken_text]
  by (simp add: example_load example_staging example_texts example_test_gate
        fst_mejorar_codigo example_round_trips example_main_broken example_newlines)

text \<open>
  Claim C6 as the specification states it, that a failed restore ends the process with
  status 1, is false: in the example run the second test run fails, the restoring write
  fails and is logged, \<^verbatim>\<open>codigo.py\<close> does not hold the original text, and the status is
  not 1.
\<close>

theorem restore_failure_fatal_counterexample:
  "\<not> test_gate (example_env service_broken)
        ((files world0)(staged := None, canonical \<mapsto> broken_text)) \<and>
   (ERROR, Text (''Error al crear el archivo '' @ canonical @ '': ''
                 @ ''[Errno 2] No such file or directory: '' @ quote @ quote))
     \<in> set (log_records (snd (main (example_env service_broken) world0))) \<and>
   files (snd (main (example_env service_broken) world0)) canonical \<noteq> Some original_text \<and>
   fst (main (example_env service_broken) world0) \<noteq> 1"
  using example_main_broken(3)
  by (simp add: example_main_broken(1,2) example_texts example_test_gate)

subsection \<open>The second test run passes\<close>

text \<open>
  Claim C2. For every original text and improved text: when the run loads the original, the
  tests pass on it, the engine returns the improved text for it, the text is staged and
  moved over \<^verbatim>\<open>codigo.py\<close>, and the second test run, on the improved text, passes, then the
  process exits with status 0 and \<^verbatim>\<open>codigo.py\<close> holds exactly the improved text.
\<close>

theorem improved_text_kept:
  assumes "files w canonical = Some contenido"
    and "read_error env canonical = None"
    and "test_gate env (files w)"
    and "fst (mejorar_codigo env (universal_newlines contenido) 3 w) = Some mejorado"
    and "mejorado \<noteq> []"
    and "mkdir_error env ''temp'' = None"
    and "write_outcome env staged mejorado = Written"
    and "move_outcome env staged canonical = Moved"
    and "test_gate env ((files w)(staged := None, canonical \<mapsto> mejorado))"
  shows "fst (main env w) = 0 \<and> files (snd (main env w)) canonical = Some mejorado"
proof -
  from assms(4) have "round_trips env 3 (universal_newlines contenido) = Some mejorado"
    by (simp add: fst_mejorar_codigo)
  with assms obtain w1
    where "main env w = (0, main_after_swap env (universal_newlines contenido) w1)"
    and "files w1 = (files w)(staged := None, canonical \<mapsto> mejorado)"
    using main_swapped [of w contenido env mejorado] by blast
  then show ?thesis
    by (simp add: files_main_after_swap_canonical)
qed

text \<open>The theorem at a \<^verbatim>\<open>codigo.py\<close> whose lines end in carriage return and line feed, with
  the service \<open>service_lf\<close>: the engine is asked about the text as loaded, which holds no
  carriage return, so the service answers and the rewrite is kept.\<close>

theorem improved_text_kept_witness:
  "files world_crlf canonical = Some original_crlf \<and>
   universal_newlines original_crlf = original_text \<and>
   test_gate (example_env service_lf) (files world_crlf) \<and>
   fst (mejorar_codigo (example_env service_lf) original_crlf 3 world_crlf) = None \<and>
   fst (mejorar_codigo (example_env service_lf) original_text 3 world_crlf)
     = Some improved_text \<and>
   test_gate (example_env service_lf)
     ((files world_crlf)(staged := None, canonical \<mapsto> improved_text)) \<and>
   fst (main (example_env service_lf) world_crlf) = 0 \<and>
   files (snd (main (example_env service_lf) world_crlf)) canonical = Some improved_text"
proof -
  have "round_trip (example_env service_lf) 0 original_crlf = None"
    by (simp add: round_trip_def example_env_def service_lf_def original_crlf_def)
  then have "round_trips (example_env service_lf) 3 original_crlf = None"
    by (simp add: numeral_3_eq_3 round_trips_Suc)
  then show ?thesis
    using improved_text_kept [of world_crlf original_crlf "example_env service_lf" improved_text]
    by (simp add: example_load example_staging example_texts example_test_gate
          fst_mejorar_codigo example_round_trips example_newlines)
qed

subsection \<open>The Improvement Engine\<close>

text \<open>
  Claim C3. The result of \<open>mejorar_codigo\<close> for the iteration count \<open>n\<close> is the fold of
  \<open>n\<close> round-trips over the code text, each one taking the first candidate of the answer
  to its request and stripping it. When no round-trip fails the engine sends exactly \<open>n\<close>
  requests, one after the other, and the i-th is the instruction followed by the text that
  the rounds before it produced (the code text itself for the first) and two line feeds.
  Stripping removes white space at both ends and nothing else, and leaves a text that
  neither starts nor ends with white space; a round whose answer holds a candidate yields
  the first candidate, stripped.
\<close>

theorem mejorar_codigo_fold:
  "fst (mejorar_codigo env codigo n w) = round_trips env (nat n) codigo \<and>
   (round_trips env (nat n) codigo \<noteq> None \<longrightarrow>
      events (snd (mejorar_codigo env codigo n w)) =
        events w @
        map (\<lambda>i. EvCompletion
                    (''Mejora el siguiente c'' @ [CHR 0xC3, CHR 0xB3] @ ''digo:''
                     @ [CHR 0x0A, CHR 0x0A] @ the (round_trips env i codigo)
                     @ [CHR 0x0A, CHR 0x0A]))
            [0..<nat n]) \<and>
   (\<forall>i texto choice rest.
      completion_create env i
        (''Mejora el siguiente c'' @ [CHR 0xC3, CHR 0xB3] @ ''digo:'' @ [CHR 0x0A, CHR 0x0A]
         @ texto @ [CHR 0x0A, CHR 0x0A]) = Inr (choice # rest) \<longrightarrow>
      fst (mejorar_iteracion env i texto w) = Some (strip choice) \<and>
      (\<exists>ws ws'. set ws \<subseteq> set whitespace \<and> set ws' \<subseteq> set whitespace \<and>
         choice = concat ws @ strip choice @ concat ws' \<and>
         (\<forall>p \<in> set whitespace. \<not> prefix p (strip choice) \<and> \<not> suffix p (strip choice))))"
proof (intro conjI impI allI)
  show "fst (mejorar_codigo env codigo n w) = round_trips env (nat n) codigo"
    by (rule fst_mejorar_codigo)
next
  assume "round_trips env (nat n) codigo \<noteq> None"
  then have "events (snd (mejorar_codigo env codigo n w)) = events w @ requests env (nat n) codigo"
    by (simp add: mejorar_codigo_def events_mejorar_loop_ok)
  then show "events (snd (mejorar_codigo env codigo n w)) =
        events w @
        map (\<lambda>i. EvCompletion
                    (''Mejora el siguiente c'' @ [CHR 0xC3, CHR 0xB3] @ ''digo:''
                     @ [CHR 0x0A, CHR 0x0A] @ the (round_trips env i codigo)
                     @ [CHR 0x0A, CHR 0x0A]))
            [0..<nat n]"
    by (simp add: requests_def)
next
  fix i texto choice rest
  assume "completion_create env i
        (''Mejora el siguiente c'' @ [CHR 0xC3, CHR 0xB3] @ ''digo:'' @ [CHR 0x0A, CHR 0x0A]
         @ texto @ [CHR 0x0A, CHR 0x0A]) = Inr (choice # rest)"
  then show "fst (mejorar_iteracion env i texto w) = Some (strip choice)"
    by (simp add: fst_mejorar_iteracion round_trip_def)
  show "\<exists>ws ws'. set ws \<subseteq> set whitespace \<and> set ws' \<subseteq> set whitespace \<and>
         choice = concat ws @ strip choice @ concat ws' \<and>
         (\<forall>p \<in> set whitespace. \<not> prefix p (strip choice) \<and> \<not> suffix p (strip choice))"
    by (rule strip_spec)
qed

text \<open>The theorem at three rounds with the service \<open>service_good\<close>, which returns two
  candidates: the first is taken and stripped of its blank, tab, no-break space, line
  separator, carriage return and line feed, and the second and third request embed it.\<close>

theorem mejorar_codigo_fold_witness:
  "round_trips (example_env service_good) (nat 3) original_text \<noteq> None \<and>
   completion_create (example_env service_good) 0
     (''Mejora el siguiente c'' @ [CHR 0xC3, CHR 0xB3] @ ''digo:'' @ [CHR 0x0A, CHR 0x0A]
      @ original_text @ [CHR 0x0A, CHR 0x0A]) = Inr [padded_text, broken_text] \<and>
   strip padded_text = improved_text \<and>
   fst (mejorar_codigo (example_env service_good) original_text 3 world0) = Some improved_text \<and>
   events (snd (mejorar_codigo (example_env service_good) original_text 3 world0)) =
     [EvCompletion (''Mejora el siguiente c'' @ [CHR 0xC3, CHR 0xB3] @ ''digo:''
                    @ [CHR 0x0A, CHR 0x0A] @ original_text @ [CHR 0x0A, CHR 0x0A]),
      EvCompletion (''Mejora el siguiente c'' @ [CHR 0xC3, CHR 0xB3] @ ''digo:''
                    @ [CHR 0x0A, CHR 0x0A] @ improved_text @ [CHR 0x0A, CHR 0x0A]),
      EvCompletion (''Mejora el siguiente c'' @ [CHR 0xC3, CHR 0xB3] @ ''digo:''
                    @ [CHR 0x0A, CHR 0x0A] @ improved_text @ [CHR 0x0A, CHR 0x0A])]"
proof -
  let ?E = "example_env service_good"
  have r: "round_trips ?E 0 original_text = Some original_text"
    "round_trips ?E (Suc 0) original_text = Some improved_text"
    "round_trips ?E (Suc (Suc 0)) original_text = Some improved_text"
    "round_trips ?E (nat 3) original_text = Some improved_text"
    by (simp_all add: round_trips_Suc round_trip_good example_round_trips)
  have c: "completion_create ?E 0
     (''Mejora el siguiente c'' @ [CHR 0xC3, CHR 0xB3] @ ''digo:'' @ [CHR 0x0A, CHR 0x0A]
      @ original_text @ [CHR 0x0A, CHR 0x0A]) = Inr [padded_text, broken_text]"
    by (simp add: example_env_def service_good_def)
  have u: "[0..<3] = [0, Suc 0, Suc (Suc 0)]"
    by (simp add: numeral_3_eq_3 upt_rec)
  note t = mejorar_codigo_fold [of ?E original_text 3 world0]
  from t r(4) have "fst (mejorar_codigo ?E original_text 3 world0) = Some improved_text"
    by simp
  moreover from t r(4)
  have "events (snd (mejorar_codigo ?E original_text 3 world0)) =
        events world0 @
        map (\<lambda>i. EvCompletion
                    (''Mejora el siguiente c'' @ [CHR 0xC3, CHR 0xB3] @ ''digo:''
                     @ [CHR 0x0A, CHR 0x0A] @ the (round_trips ?E i original_text)
                     @ [CHR 0x0A, CHR 0x0A]))
            [0..<nat 3]"
    by simp
  ultimately show ?thesis
    using c r by (simp add: u example_load example_strip)
qed

text \<open>
  Claim C4. When round-trip \<open>j\<close> of the engine is the first that fails, the engine returns
  \<^verbatim>\<open>None\<close> and has sent the requests of the rounds up to \<open>j\<close> and no other; and when the
  tests pass on the original and the engine returns \<^verbatim>\<open>None\<close> for the text that was loaded,
  the process exits with status 1 and no file has changed, so \<^verbatim>\<open>codigo.py\<close> holds what it
  held, byte for byte.
\<close>

theorem engine_failure_is_fatal:
  "(round_trips env j codigo = Some actual \<and> round_trip env j actual = None \<and> j < nat n \<longrightarrow>
      fst (mejorar_codigo env codigo n w) = None \<and>
      events (snd (mejorar_codigo env codigo n w)) = events w @ requests env (Suc j) codigo) \<and>
   (files w canonical = Some contenido \<and> read_error env canonical = None \<and>
    test_gate env (files w) \<and>
    fst (mejorar_codigo env (universal_newlines contenido) 3 w) = None \<longrightarrow>
      fst (main env w) = 1 \<and> files (snd (main env w)) = files w)"
proof (intro conjI impI)
  assume a: "round_trips env j codigo = Some actual \<and> round_trip env j actual = None \<and> j < nat n"
  then have "round_trips env (Suc j) codigo = None"
    by (simp add: round_trips_Suc)
  with a have "round_trips env (nat n) codigo = None"
    by (auto intro: round_trips_None_mono)
  then show "fst (mejorar_codigo env codigo n w) = None"
    by (simp add: fst_mejorar_codigo)
  from a show "events (snd (mejorar_codigo env codigo n w)) = events w @ requests env (Suc j) codigo"
    by (simp add: mejorar_codigo_def events_mejorar_loop_fail)
next
  assume b: "files w canonical = Some contenido \<and> read_error env canonical = None \<and>
    test_gate env (files w) \<and>
    fst (mejorar_codigo env (universal_newlines contenido) 3 w) = None"
  then have "round_trips env 3 (universal_newlines contenido) = None"
    by (simp add: fst_mejorar_codigo)
  with b main_no_result [of w contenido env]
  show "fst (main env w) = 1" and "files (snd (main env w)) = files w"
    by simp_all
qed

text \<open>The theorem with the service \<open>service_down\<close>, which fails at the second of three
  rounds: two requests are sent, the third is not; and at a run on a \<^verbatim>\<open>codigo.py\<close> whose
  lines end in carriage return and line feed.\<close>

theorem engine_failure_is_fatal_witness:
  "round_trips (example_env service_down) 1 original_text = Some improved_text \<and>
   round_trip (example_env service_down) 1 improved_text = None \<and>
   fst (mejorar_codigo (example_env service_down) original_text 3 world_crlf) = None \<and>
   events (snd (mejorar_codigo (example_env service_down) original_text 3 world_crlf)) =
     [EvCompletion (''Mejora el siguiente c'' @ [CHR 0xC3, CHR 0xB3] @ ''digo:''
                    @ [CHR 0x0A, CHR 0x0A] @ original_text @ [CHR 0x0A, CHR 0x0A]),
      EvCompletion (''Mejora el siguiente c'' @ [CHR 0xC3, CHR 0xB3] @ ''digo:''
                    @ [CHR 0x0A, CHR 0x0A] @ improved_text @ [CHR 0x0A, CHR 0x0A])] \<and>
   files world_crlf canonical = Some original_crlf \<and>
   universal_newlines original_crlf = original_text \<and>
   test_gate (example_env service_down) (files world_crlf) \<and>
   fst (main (example_env service_down) world_crlf) = 1 \<and>
   files (snd (main (example_env service_down) world_crlf)) = files world_crlf"
  using engine_failure_is_fatal
    [of "example_env service_down" 1 original_text improved_text 3 world_crlf original_crlf]
  by (simp add: example_load example_test_gate example_round_trips round_trip_down
        requests_def numeral_2_eq_2 example_newlines)

text \<open>
  Claim C10. When the engine returns the empty string for the text that was loaded, the
  run ends as for \<^verbatim>\<open>None\<close>: the process exits with status 1 and no file has changed.
\<close>

theorem empty_result_is_fatal:
  assumes "files w canonical = Some contenido"
    and "read_error env canonical = None"
    and "test_gate env (files w)"
    and "fst (mejorar_codigo env (universal_newlines contenido) 3 w) = Some []"
  shows "fst (main env w) = 1 \<and> files (snd (main env w)) = files w"
proof -
  from assms(4) have "round_trips env 3 (universal_newlines contenido) = Some []"
    by (simp add: fst_mejorar_codigo)
  with assms(1-3) main_no_result [of w contenido env] show ?thesis
    by simp
qed

text \<open>The theorem at the example run with the service \<open>service_blank\<close>, whose candidates
  strip to the empty string.\<close>

theorem empty_result_is_fatal_witness:
  "files world0 canonical = Some original_text \<and>
   universal_newlines original_text = original_text \<and>
   test_gate (example_env service_blank) (files world0) \<and>
   fst (mejorar_codigo (example_env service_blank) original_text 3 world0) = Some [] \<and>
   fst (main (example_env service_blank) world0) = 1 \<and>
   files (snd (main (example_env service_blank) world0)) = files world0"
  using empty_result_is_fatal [of world0 original_text "example_env service_blank"]
  by (simp add: example_load example_test_gate fst_mejorar_codigo example_round_trips
        example_newlines)

subsection \<open>The first test run fails\<close>

text \<open>
  Claim C5. When the tests fail on the original text, the process exits with status 1 after
  the load and the test run and nothing else: no request to the completion service, no
  write and no move; no file has changed.
\<close>

theorem failing_original_aborts:
  assumes "files w canonical = Some original"
    and "read_error env canonical = None"
    and "\<not> test_gate env (files w)"
  shows "fst (main env w) = 1 \<and> files (snd (main env w)) = files w \<and>
         events (snd (main env w)) =
           events w @ [EvRead canonical, EvRun [''pytest'', ''tests.py'']]"
proof -
  from main_until_swap_tests_fail [OF assms]
  obtain w1 where "main_until_swap env w = Inl (1, w1)" and "files w1 = files w"
    and "events w1 = events w @ [EvRead canonical, EvRun [''pytest'', ''tests.py'']]"
    by blast
  then show ?thesis
    by (simp add: main_def)
qed

text \<open>The theorem at a run on a \<^verbatim>\<open>codigo.py\<close> that does not parse.\<close>

theorem failing_original_aborts_witness:
  "files world_failing canonical = Some broken_text \<and>
   \<not> test_gate (example_env service_good) (files world_failing) \<and>
   fst (main (example_env service_good) world_failing) = 1 \<and>
   files (snd (main (example_env service_good) world_failing)) = files world_failing \<and>
   events (snd (main (example_env service_good) world_failing)) =
     [EvRead canonical, EvRun [''pytest'', ''tests.py'']]"
  using failing_original_aborts [of world_failing broken_text "example_env service_good"]
  by (simp add: example_load example_test_gate example_texts)

subsection \<open>The Static Advisors\<close>

text \<open>
  Claim C8. Two runs from the same world whose environments differ in the results of the
  linter commands only (whether they start, their exit codes, their output) end with the
  same exit status, the same files and the same trace of calls, the move of the staged
  file among them; they differ in the log at most.
\<close>

theorem linters_do_not_interfere:
  assumes "\<forall>comando fs. \<not> is_linter comando \<longrightarrow> run' comando fs = subprocess_run env comando fs"
  shows "fst (main (env\<lparr>subprocess_run := run'\<rparr>) w) = fst (main env w) \<and>
         files (snd (main (env\<lparr>subprocess_run := run'\<rparr>) w)) = files (snd (main env w)) \<and>
         events (snd (main (env\<lparr>subprocess_run := run'\<rparr>) w)) = events (snd (main env w))"
proof -
  let ?env' = "env\<lparr>subprocess_run := run'\<rparr>"
  note u = main_until_swap_linters [OF assms, of w]
  show ?thesis
  proof (cases "main_until_swap env w")
    case (Inl a)
    obtain status w1 where a: "a = (status, w1)" by (cases a)
    from u Inl a obtain w1' where "main_until_swap ?env' w = Inl (status, w1')"
      and "same_effects w1' w1"
      by (cases "main_until_swap ?env' w") (auto split: prod.splits)
    with Inl a show ?thesis
      by (simp add: main_def same_effects_def)
  next
    case (Inr b)
    obtain c m w1 where b: "b = (c, m, w1)" by (cases b)
    from u Inr b obtain w1' where u': "main_until_swap ?env' w = Inr (c, m, w1')"
      and s: "same_effects w1' w1"
      by (cases "main_until_swap ?env' w") (auto split: prod.splits)
    from main_after_swap_linters [OF assms s, of c]
    have "same_effects (main_after_swap ?env' c w1') (main_after_swap env c w1)" .
    with Inr b u' show ?thesis
      by (simp add: main_def same_effects_def)
  qed
qed

text \<open>The theorem at the example run, with linters that find nothing against a pylint
  that reports an issue and a flake8 that does not start.\<close>

theorem linters_do_not_interfere_witness:
  "noisy_linters [''pylint'', ''temp/codigo_mejorado.py''] (files world0)
     \<noteq> subprocess_run (example_env service_good) [''pylint'', ''temp/codigo_mejorado.py'']
          (files world0) \<and>
   fst (main ((example_env service_good)\<lparr>subprocess_run := noisy_linters\<rparr>) world0)
     = fst (main (example_env service_good) world0) \<and>
   files (snd (main ((example_env service_good)\<lparr>subprocess_run := noisy_linters\<rparr>) world0))
     = files (snd (main (example_env service_good) world0)) \<and>
   events (snd (main ((example_env service_good)\<lparr>subprocess_run := noisy_linters\<rparr>) world0))
     = events (snd (main (example_env service_good) world0))"
proof -
  have "\<forall>comando fs. \<not> is_linter comando \<longrightarrow>
          noisy_linters comando fs = subprocess_run (example_env service_good) comando fs"
    by (auto simp: noisy_linters_def is_linter_def example_env_def)
  moreover have "noisy_linters [''pylint'', ''temp/codigo_mejorado.py''] (files world0)
     \<noteq> subprocess_run (example_env service_good) [''pylint'', ''temp/codigo_mejorado.py'']
          (files world0)"
    by (simp add: noisy_linters_def example_env_def quiet_run_def)
  ultimately show ?thesis
    using linters_do_not_interfere [of noisy_linters "example_env service_good" world0]
    by simp
qed

subsection \<open>The new function\<close>

text \<open>
  Claim C9. A run that ends with status 0, with the improvement kept or not, leaves the
  fixed text \<open>nuevo_codigo\<close> at \<^verbatim>\<open>nuevas_funciones/resta.py\<close>, provided the file system
  accepts that write; and after any number of runs of which one at least ended with
  status 0, the path holds that same text.
\<close>

theorem resta_py_idempotent:
  "(fst (main env w) = 0 \<and> mkdir_error env ''nuevas_funciones'' = None \<and>
    write_outcome env resta_py nuevo_codigo = Written \<longrightarrow>
      files (snd (main env w)) resta_py = Some nuevo_codigo) \<and>
   ((\<forall>env \<in> set envs. mkdir_error env ''nuevas_funciones'' = None \<and>
                       write_outcome env resta_py nuevo_codigo = Written) \<and>
    0 \<in> set (fst (pipeline_runs envs w)) \<longrightarrow>
      files (snd (pipeline_runs envs w)) resta_py = Some nuevo_codigo)"
  using main_done_resta_py [of env w] pipeline_runs_resta_py [of envs w]
  by blast

text \<open>The theorem at a run that keeps the improvement, at one that does not, and at two
  runs in a row of which the second exits with status 1.\<close>

theorem resta_py_idempotent_witness:
  "fst (main (example_env service_broken) world0) = 0 \<and>
   files (snd (main (example_env service_broken) world0)) resta_py = Some nuevo_codigo \<and>
   fst (main (example_env service_good) world0) = 0 \<and>
   files (snd (main (example_env service_good) world0)) resta_py = Some nuevo_codigo \<and>
   0 \<in> set (fst (pipeline_runs [example_env service_broken, example_env service_down] world0)) \<and>
   files (snd (pipeline_runs [example_env service_broken, example_env service_down] world0))
     resta_py = Some nuevo_codigo"
proof -
  obtain w1 where "main (example_env service_good) world0
                     = (0, main_after_swap (example_env service_good) original_text w1)"
    using main_swapped [of world0 original_text "example_env service_good" improved_text]
    by (auto simp: example_load example_staging example_texts example_test_gate
          example_round_trips example_newlines)
  then have g: "fst (main (example_env service_good) world0) = 0" by simp
  show ?thesis
    using resta_py_idempotent [of "example_env service_broken" world0
        "[example_env service_broken, example_env service_down]"]
      resta_py_idempotent [of "example_env service_good" world0 "[]"] g
    by (simp add: example_main_broken example_staging fst_pipeline_runs_Cons
             del: pipeline_runs.simps)
qed

end
